theory Spec2Isabelle
  imports Complex_Main "HOL-Library.Sublist"
begin

section \<open>JavaScript values\<close>

text \<open>
  A JavaScript string is a sequence of code units. The model covers the code units
  U+0000 to U+00FF, one \<^typ>\<open>char\<close> each, which is enough for the ASCII keywords,
  separators and letter cases that the chatbot code inspects. A JavaScript \<open>number\<close>
  that is finite is modelled by the rational it denotes; the comparisons and the
  \<open>Math.min\<close>/\<open>Math.max\<close> calls of the code do not round. \<open>NaN\<close> and the two infinities
  are numbers of their own.
\<close>

type_synonym number = rat

datatype jsnumber = Finite number | NaN | PosInfinity | NegInfinity

definition toLowerCaseChar :: "char \<Rightarrow> char" where
  "toLowerCaseChar c =
     (let n = (of_char c :: nat)
      in if (65 \<le> n \<and> n \<le> 90) \<or> (192 \<le> n \<and> n \<le> 222 \<and> n \<noteq> 215)
         then char_of (n + 32) else c)"

definition toLowerCase :: "string \<Rightarrow> string" where
  "toLowerCase s = map toLowerCaseChar s"

text \<open>\<open>s.includes(p)\<close>: \<open>p\<close> occurs in \<open>s\<close> as a contiguous run of code units.\<close>

fun includesStr :: "string \<Rightarrow> string \<Rightarrow> bool" where
  "includesStr [] p = (p = [])"
| "includesStr (c # cs) p = (if prefix p (c # cs) then True else includesStr cs p)"

text \<open>
  \<open>s.split(' ')\<close>: the pieces of \<open>s\<close> between consecutive occurrences of the single
  space character; the empty string gives one empty piece.
\<close>

fun split_space :: "string \<Rightarrow> string list" where
  "split_space [] = [[]]"
| "split_space (c # cs) =
     (if c = CHR '' '' then [] # split_space cs
      else (case split_space cs of [] \<Rightarrow> [[c]] | w # ws \<Rightarrow> (c # w) # ws))"

text \<open>
  Values that cross the tool boundary are untyped on the JavaScript side (\<open>any\<close>):
  tool-call arguments come from \<open>JSON.parse\<close>, tool results are object literals.
\<close>

datatype jsval =
    JUndefined
  | JNull
  | JBool bool
  | JNum number
  | JNaN
  | JInfinity
  | JNegInfinity
  | JStr string
  | JArr "jsval list"
  | JObj "(string \<times> jsval) list"

text \<open>Property read \<open>v.k\<close> on an object; a missing property reads as \<open>undefined\<close>.\<close>

fun field :: "jsval \<Rightarrow> string \<Rightarrow> jsval" where
  "field (JObj kvs) k = (case map_of kvs k of None \<Rightarrow> JUndefined | Some v \<Rightarrow> v)"
| "field _ k = JUndefined"

text \<open>JavaScript truthiness, as used by \<open>if (x)\<close>, \<open>!x\<close>, \<open>x || y\<close> and \<open>x && y\<close>.\<close>

fun truthy :: "jsval \<Rightarrow> bool" where
  "truthy JUndefined = False"
| "truthy JNull = False"
| "truthy (JBool b) = b"
| "truthy (JNum n) = (n \<noteq> 0)"
| "truthy JNaN = False"
| "truthy JInfinity = True"
| "truthy JNegInfinity = True"
| "truthy (JStr s) = (s \<noteq> [])"
| "truthy (JArr _) = True"
| "truthy (JObj _) = True"

text \<open>A number as a value, and \<open>ToNumber\<close>, the conversion that \<open>Math.max\<close> and \<open>Math.min\<close>
  apply to each argument: \<open>undefined\<close> gives \<open>NaN\<close>, \<open>null\<close> gives 0, \<open>false\<close> and \<open>true\<close> give
  0 and 1. A string is read as a numeric literal, and an array or an object through its
  string form; that reading (\<open>StringToNumber\<close>, which rounds to a double) is the
  parameter \<open>textToNumber\<close>.\<close>

fun numberValue :: "jsnumber \<Rightarrow> jsval" where
  "numberValue (Finite n) = JNum n"
| "numberValue NaN = JNaN"
| "numberValue PosInfinity = JInfinity"
| "numberValue NegInfinity = JNegInfinity"

definition toNumber :: "(jsval \<Rightarrow> jsnumber) \<Rightarrow> jsval \<Rightarrow> jsnumber" where
  "toNumber textToNumber v =
     (case v of
        JUndefined \<Rightarrow> NaN
      | JNull \<Rightarrow> Finite 0
      | JBool b \<Rightarrow> Finite (if b then 1 else 0)
      | JNum n \<Rightarrow> Finite n
      | JNaN \<Rightarrow> NaN
      | JInfinity \<Rightarrow> PosInfinity
      | JNegInfinity \<Rightarrow> NegInfinity
      | JStr s \<Rightarrow> textToNumber v
      | JArr xs \<Rightarrow> textToNumber v
      | JObj kvs \<Rightarrow> textToNumber v)"

text \<open>\<open>Math.max(x, y)\<close> and \<open>Math.min(x, y)\<close> on numbers: \<open>NaN\<close> when an argument is \<open>NaN\<close>.\<close>

fun mathMax :: "jsnumber \<Rightarrow> jsnumber \<Rightarrow> jsnumber" where
  "mathMax NaN y = NaN"
| "mathMax x NaN = NaN"
| "mathMax PosInfinity y = PosInfinity"
| "mathMax x PosInfinity = PosInfinity"
| "mathMax NegInfinity y = y"
| "mathMax x NegInfinity = x"
| "mathMax (Finite a) (Finite b) = Finite (max a b)"

fun mathMin :: "jsnumber \<Rightarrow> jsnumber \<Rightarrow> jsnumber" where
  "mathMin NaN y = NaN"
| "mathMin x NaN = NaN"
| "mathMin NegInfinity y = NegInfinity"
| "mathMin x NegInfinity = NegInfinity"
| "mathMin PosInfinity y = y"
| "mathMin x PosInfinity = x"
| "mathMin (Finite a) (Finite b) = Finite (min a b)"

section \<open>History window manager\<close>

text \<open>
  \<open>lib/chatbot.ts\<close>: the per-user message log, held in the module-level object
  \<open>conversationHistories\<close>. The system prompt comes from the configuration and is a
  parameter here.
\<close>

datatype role = System | User | Assistant | Function

record message =
  role :: role
  content :: string
  name :: "string option"

text \<open>
  The store is the object literal \<open>{}\<close>, so it inherits from \<open>Object.prototype\<close>. The map
  below holds its own properties, the logs. A property read
  \<open>conversationHistories[userId]\<close> yields the log stored under the name; without one it
  yields what \<open>Object.prototype\<close> has under the name, a function or, for \<open>__proto__\<close>, the
  prototype object, all of them truthy; and \<open>undefined\<close> otherwise. The two functions
  below write a log only after such a read was falsy or gave a log, so they store none
  under a name of \<open>Object.prototype\<close>. (\<open>clearConversationHistory\<close>, which its route calls
  with the numeric id of the session's user, is not part of this model.)
\<close>

type_synonym ConversationHistory = "string \<rightharpoonup> message list"

definition objectPrototypeKeys :: "string list" where
  "objectPrototypeKeys =
     [''constructor'', ''__proto__'', ''hasOwnProperty'', ''isPrototypeOf'',
      ''propertyIsEnumerable'', ''toLocaleString'', ''toString'', ''valueOf'',
      ''__defineGetter__'', ''__defineSetter__'', ''__lookupGetter__'', ''__lookupSetter__'']"

datatype storedValue = Log "message list" | PrototypeMember

definition propertyRead :: "ConversationHistory \<Rightarrow> string \<Rightarrow> storedValue option" where
  "propertyRead conversationHistories userId =
     (case conversationHistories userId of
        Some h \<Rightarrow> Some (Log h)
      | None \<Rightarrow> if userId \<in> set objectPrototypeKeys then Some PrototypeMember else None)"

definition MAX_HISTORY_LENGTH :: nat where
  "MAX_HISTORY_LENGTH = 10"

definition systemMessage :: "string \<Rightarrow> message" where
  "systemMessage LLM_SYSTEM_PROMPT = \<lparr>role = System, content = LLM_SYSTEM_PROMPT, name = None\<rparr>"

text \<open>
  \<open>addToConversationHistory(userId, message)\<close>: create the log with the system message
  when the read of the user's name is falsy, push the message, and when the log is
  longer than \<open>MAX_HISTORY_LENGTH + 1\<close> keep element 0 and the last \<open>MAX_HISTORY_LENGTH\<close>
  elements (\<open>slice(length - MAX_HISTORY_LENGTH)\<close>). When the read yields a member of
  \<open>Object.prototype\<close>, nothing is created and \<open>push\<close>, which that member does not have,
  throws a \<open>TypeError\<close>; the store is then as it was. The result is the error or the new
  store.
\<close>

definition addToConversationHistory ::
  "string \<Rightarrow> ConversationHistory \<Rightarrow> string \<Rightarrow> message \<Rightarrow> string + ConversationHistory" where
  "addToConversationHistory LLM_SYSTEM_PROMPT conversationHistories userId m =
     (case (case propertyRead conversationHistories userId of
              None \<Rightarrow> Log [systemMessage LLM_SYSTEM_PROMPT]
            | Some v \<Rightarrow> v) of
        PrototypeMember \<Rightarrow>
          Inl ''TypeError: conversationHistories[userId].push is not a function''
      | Log created \<Rightarrow>
          Inr (let pushed = created @ [m]
               in if length pushed > MAX_HISTORY_LENGTH + 1
                  then conversationHistories(userId \<mapsto>
                         hd pushed # drop (length pushed - MAX_HISTORY_LENGTH) pushed)
                  else conversationHistories(userId \<mapsto> pushed)))"

text \<open>
  Appending a sequence of messages, one call per message, in order, up to the first
  call that throws.
\<close>

fun addAllToConversationHistory ::
  "string \<Rightarrow> ConversationHistory \<Rightarrow> string \<Rightarrow> message list \<Rightarrow> string + ConversationHistory" where
  "addAllToConversationHistory LLM_SYSTEM_PROMPT conversationHistories userId [] =
     Inr conversationHistories"
| "addAllToConversationHistory LLM_SYSTEM_PROMPT conversationHistories userId (m # ms) =
     (case addToConversationHistory LLM_SYSTEM_PROMPT conversationHistories userId m of
        Inl thrown \<Rightarrow> Inl thrown
      | Inr appended \<Rightarrow> addAllToConversationHistory LLM_SYSTEM_PROMPT appended userId ms)"

text \<open>
  The log that a call which returns works on: the stored one, or the fresh one it
  creates; and the log stored for a user.
\<close>

definition historyBefore :: "string \<Rightarrow> ConversationHistory \<Rightarrow> string \<Rightarrow> message list" where
  "historyBefore LLM_SYSTEM_PROMPT conversationHistories userId =
     (case conversationHistories userId of
        None \<Rightarrow> [systemMessage LLM_SYSTEM_PROMPT]
      | Some h \<Rightarrow> h)"

definition historyAfter :: "ConversationHistory \<Rightarrow> string \<Rightarrow> message list" where
  "historyAfter conversationHistories userId =
     (case conversationHistories userId of None \<Rightarrow> [] | Some h \<Rightarrow> h)"

section \<open>Coupon tool\<close>

text \<open>
  \<open>generateCoupon(discount)\<close> of \<open>lib/chatbot.ts\<close>. The parameter is declared a
  \<open>number\<close>; the dispatcher passes \<open>parameters.discount\<close> as it came out of \<open>JSON.parse\<close>,
  so the function receives any value, \<open>undefined\<close> when the field is missing. The coupon
  encoder \<open>security.generateCoupon\<close> lives in \<open>lib/insecurity\<close> and is a parameter: it
  returns the code or throws.
\<close>

definition generateCoupon ::
  "(jsval \<Rightarrow> jsnumber) \<Rightarrow> (jsnumber \<Rightarrow> string + string) \<Rightarrow> jsval \<Rightarrow> jsval" where
  "generateCoupon textToNumber security_generateCoupon discount =
     (let safeDiscount =
            mathMin (mathMax (toNumber textToNumber discount) (Finite 10)) (Finite 20)
      in case security_generateCoupon safeDiscount of
           Inr couponCode \<Rightarrow>
             JObj [(''couponCode'', JStr couponCode), (''discount'', numberValue safeDiscount)]
         | Inl err \<Rightarrow> JObj [(''error'', JStr ''Failed to generate coupon'')])"

section \<open>Fuzzy matcher\<close>

text \<open>
  \<open>calculateNameMatchScore(search, actual)\<close> of the frontend \<open>ChatbotService\<close>.
\<close>

definition calculateNameMatchScore :: "string \<Rightarrow> string \<Rightarrow> number" where
  "calculateNameMatchScore search actual =
     (let searchLower = toLowerCase search;
          actualLower = toLowerCase actual
      in if searchLower = actualLower then 1
         else if includesStr actualLower searchLower then 9 / 10
         else if includesStr searchLower actualLower then 8 / 10
         else (let searchWords = split_space searchLower;
                   actualWords = split_space actualLower;
                   commonWords = filter (\<lambda>word. word \<in> set actualWords) searchWords
               in of_nat (length commonWords) /
                  of_nat (max (length searchWords) (length actualWords))))"

text \<open>\<open>ws.join(' ')\<close>, the inverse of \<open>split(' ')\<close>.\<close>

fun join_space :: "string list \<Rightarrow> string" where
  "join_space [] = []"
| "join_space [w] = w"
| "join_space (w # v # ws) = w @ CHR '' '' # join_space (v # ws)"

subsection \<open>The reference algorithm in the words of the specification\<close>

text \<open>
  The specification's fallback case is the word-overlap ratio
  \<open>|common whitespace-separated tokens| / max(|search tokens|, |candidate tokens|)\<close>.
  Its tokens are the maximal runs of characters that are not white space (tab, line
  feed, vertical tab, form feed, carriage return, space, no-break space).
\<close>

definition isWhiteSpace :: "char \<Rightarrow> bool" where
  "isWhiteSpace c = ((of_char c :: nat) \<in> {9, 10, 11, 12, 13, 32, 160})"

fun whitespace_tokens_from :: "string \<Rightarrow> string \<Rightarrow> string list" where
  "whitespace_tokens_from cur [] = (if cur = [] then [] else [cur])"
| "whitespace_tokens_from cur (c # cs) =
     (if isWhiteSpace c
      then (if cur = [] then whitespace_tokens_from [] cs
            else cur # whitespace_tokens_from [] cs)
      else whitespace_tokens_from (cur @ [c]) cs)"

definition whitespace_tokens :: "string \<Rightarrow> string list" where
  "whitespace_tokens s = whitespace_tokens_from [] s"

definition matchScore_spec :: "string \<Rightarrow> string \<Rightarrow> number" where
  "matchScore_spec search candidate =
     (if toLowerCase search = toLowerCase candidate then 1
      else if includesStr (toLowerCase candidate) (toLowerCase search) then 9 / 10
      else if includesStr (toLowerCase search) (toLowerCase candidate) then 8 / 10
      else of_nat (card (set (whitespace_tokens (toLowerCase search))
                         \<inter> set (whitespace_tokens (toLowerCase candidate)))) /
           of_nat (max (length (whitespace_tokens (toLowerCase search)))
                       (length (whitespace_tokens (toLowerCase candidate)))))"

section \<open>Regular expressions\<close>

text \<open>
  The fragment of JavaScript regular expressions that the guardrail patterns use, all
  with the \<open>i\<close> flag and none with \<open>g\<close>, \<open>m\<close>, \<open>s\<close> or \<open>u\<close>: literal ASCII
  characters, \<open>\s\<close>, \<open>.\<close>, the quantifiers \<open>*\<close> and \<open>+\<close> on a single character
  class, \<open>\b\<close>, and the anchors \<open>^\<close> at the start and \<open>$\<close> at the end of a pattern.
\<close>

datatype charClass =
    Lit char    \<comment> \<open>a literal character, compared ignoring ASCII letter case\<close>
  | Space       \<comment> \<open>\<open>\s\<close>\<close>
  | AnyChar     \<comment> \<open>\<open>.\<close>: any character but a line terminator\<close>

datatype atom =
    One charClass
  | Star charClass
  | Plus charClass
  | WordBoundary

datatype regex = Regex (anchoredStart: bool) (atoms: "atom list") (anchoredEnd: bool)

text \<open>
  Under the \<open>i\<close> flag without \<open>u\<close> two characters match when their upper-case forms
  agree, where a character outside ASCII is never mapped into ASCII. Against an ASCII
  literal this is equality after mapping \<open>a\<close>..\<open>z\<close> to \<open>A\<close>..\<open>Z\<close>.
\<close>

definition canonicalize :: "char \<Rightarrow> char" where
  "canonicalize c =
     (let n = (of_char c :: nat)
      in if 97 \<le> n \<and> n \<le> 122 then char_of (n - 32) else c)"

definition isLineTerminator :: "char \<Rightarrow> bool" where
  "isLineTerminator c = ((of_char c :: nat) \<in> {10, 13})"

definition isWordChar :: "char \<Rightarrow> bool" where
  "isWordChar c =
     (let n = (of_char c :: nat)
      in (48 \<le> n \<and> n \<le> 57) \<or> (65 \<le> n \<and> n \<le> 90) \<or> n = 95 \<or> (97 \<le> n \<and> n \<le> 122))"

fun inClass :: "charClass \<Rightarrow> char \<Rightarrow> bool" where
  "inClass (Lit p) x = (canonicalize x = canonicalize p)"
| "inClass Space x = isWhiteSpace x"
| "inClass AnyChar x = (\<not> isLineTerminator x)"

text \<open>
  \<open>\b\<close> holds between two positions of which exactly one is a word character; the
  positions before the start and after the end count as non-word.
\<close>

definition atWordBoundary :: "char option \<Rightarrow> string \<Rightarrow> bool" where
  "atWordBoundary prev s =
     ((case prev of None \<Rightarrow> False | Some c \<Rightarrow> isWordChar c)
      \<noteq> (case s of [] \<Rightarrow> False | x # _ \<Rightarrow> isWordChar x))"

text \<open>
  \<open>matchAtoms as toEnd prev s\<close>: some prefix of \<open>s\<close> (all of \<open>s\<close> when \<open>toEnd\<close>)
  matches the sequence \<open>as\<close>, where \<open>prev\<close> is the character before \<open>s\<close>. The
  quantifiers backtrack, as in the JavaScript matcher.
\<close>

fun matchAtoms :: "atom list \<Rightarrow> bool \<Rightarrow> char option \<Rightarrow> string \<Rightarrow> bool" where
  "matchAtoms [] toEnd prev s = (if toEnd then s = [] else True)"
| "matchAtoms (One c # r) toEnd prev [] = False"
| "matchAtoms (One c # r) toEnd prev (x # xs) =
     (if inClass c x then matchAtoms r toEnd (Some x) xs else False)"
| "matchAtoms (Star c # r) toEnd prev [] = matchAtoms r toEnd prev []"
| "matchAtoms (Star c # r) toEnd prev (x # xs) =
     (if matchAtoms r toEnd prev (x # xs) then True
      else if inClass c x then matchAtoms (Star c # r) toEnd (Some x) xs
      else False)"
| "matchAtoms (Plus c # r) toEnd prev [] = False"
| "matchAtoms (Plus c # r) toEnd prev (x # xs) =
     (if inClass c x then matchAtoms (Star c # r) toEnd (Some x) xs else False)"
| "matchAtoms (WordBoundary # r) toEnd prev s =
     (if atWordBoundary prev s then matchAtoms r toEnd prev s else False)"

fun searchFrom :: "atom list \<Rightarrow> bool \<Rightarrow> char option \<Rightarrow> string \<Rightarrow> bool" where
  "searchFrom as toEnd prev [] = matchAtoms as toEnd prev []"
| "searchFrom as toEnd prev (x # xs) =
     (if matchAtoms as toEnd prev (x # xs) then True else searchFrom as toEnd (Some x) xs)"

text \<open>\<open>pattern.test(s)\<close>.\<close>

definition regex_test :: "regex \<Rightarrow> string \<Rightarrow> bool" where
  "regex_test pattern s =
     (if anchoredStart pattern then matchAtoms (atoms pattern) (anchoredEnd pattern) None s
      else searchFrom (atoms pattern) (anchoredEnd pattern) None s)"

definition lit :: "string \<Rightarrow> atom list" where
  "lit s = map (\<lambda>c. One (Lit c)) s"

section \<open>SQL guardrail\<close>

text \<open>
  The first version of \<open>lib/chatbot.ts\<close> (six tools) checks a query against its own
  pattern lists.
\<close>

text \<open>
  \<^verbatim>\<open>/^SELECT\s+.*\s+FROM\s+.*$/i\<close> and \<^verbatim>\<open>/^WITH\s+.*\s+SELECT\s+.*\s+FROM\s+.*$/i\<close>.
\<close>

definition ALLOWED_SQL_PATTERNS :: "regex list" where
  "ALLOWED_SQL_PATTERNS =
     [ Regex True (lit ''SELECT'' @ [Plus Space, Star AnyChar, Plus Space] @ lit ''FROM''
                   @ [Plus Space, Star AnyChar]) True,
       Regex True (lit ''WITH'' @ [Plus Space, Star AnyChar, Plus Space] @ lit ''SELECT''
                   @ [Plus Space, Star AnyChar, Plus Space] @ lit ''FROM''
                   @ [Plus Space, Star AnyChar]) True ]"

text \<open>
  \<^verbatim>\<open>/DROP\s+/i\<close>, \<^verbatim>\<open>/ALTER\s+/i\<close>, \<^verbatim>\<open>/CREATE\s+/i\<close>, \<^verbatim>\<open>/TRUNCATE\s+/i\<close>,
  \<^verbatim>\<open>/EXEC\s+/i\<close>, \<^verbatim>\<open>/UNION\s+/i\<close> and \<^verbatim>\<open>/BENCHMARK\s*\(/i\<close>.
\<close>

definition DISALLOWED_SQL_PATTERNS :: "regex list" where
  "DISALLOWED_SQL_PATTERNS =
     [ Regex False (lit ''DROP'' @ [Plus Space]) False,
       Regex False (lit ''ALTER'' @ [Plus Space]) False,
       Regex False (lit ''CREATE'' @ [Plus Space]) False,
       Regex False (lit ''TRUNCATE'' @ [Plus Space]) False,
       Regex False (lit ''EXEC'' @ [Plus Space]) False,
       Regex False (lit ''UNION'' @ [Plus Space]) False,
       Regex False (lit ''BENCHMARK'' @ [Star Space, One (Lit (CHR ''(''))]) False ]"

definition RESTRICTED_TABLES :: "string list" where
  "RESTRICTED_TABLES = [''SecurityAnswers'']"

text \<open>
  \<^verbatim>\<open>new RegExp(`\\b${keyword}\\s+${table}\\b`, 'i')\<close> for a table name made of letters.
\<close>

definition tableReference :: "string \<Rightarrow> string \<Rightarrow> regex" where
  "tableReference keyword table =
     Regex False ([WordBoundary] @ lit keyword @ [Plus Space] @ lit table @ [WordBoundary]) False"

definition matchesAllowedPattern :: "string \<Rightarrow> bool" where
  "matchesAllowedPattern query = list_ex (\<lambda>pattern. regex_test pattern query) ALLOWED_SQL_PATTERNS"

definition matchesDisallowedPattern :: "string \<Rightarrow> bool" where
  "matchesDisallowedPattern query =
     list_ex (\<lambda>pattern. regex_test pattern query) DISALLOWED_SQL_PATTERNS"

definition referencesRestrictedTable :: "string \<Rightarrow> bool" where
  "referencesRestrictedTable query =
     list_ex (\<lambda>table. if regex_test (tableReference ''FROM'' table) query then True
                       else regex_test (tableReference ''JOIN'' table) query)
       RESTRICTED_TABLES"

definition isQueryAllowed :: "string \<Rightarrow> bool" where
  "isQueryAllowed query =
     (let isAllowedPattern = matchesAllowedPattern query
      in if \<not> isAllowedPattern then False
         else let hasDisallowedPattern = matchesDisallowedPattern query
              in if hasDisallowedPattern then False
                 else let hasRestrictedTable = referencesRestrictedTable query
                      in if hasRestrictedTable then False
                         else True)"

section \<open>SQL tool\<close>

text \<open>
  \<open>sequelize.query(sql, {type})\<close> is the database: given the statement and the query
  type it returns the result array or throws, and it may change the world \<open>'w\<close>
  outside the program. A thrown error is represented by its message.
\<close>

datatype QueryTypes = SELECT | UPDATE

type_synonym 'w sequelize_query = "string \<Rightarrow> QueryTypes \<Rightarrow> 'w \<Rightarrow> (string + jsval list) \<times> 'w"

text \<open>\<open>xs[i]\<close> on an array: \<open>undefined\<close> out of range.\<close>

definition element :: "jsval list \<Rightarrow> nat \<Rightarrow> jsval" where
  "element xs i = (if i < length xs then xs ! i else JUndefined)"


text \<open>
  The second version of \<open>lib/chatbot.ts\<close> (eight tools) delegates the check to
  \<open>security.isDatabaseOperationAllowed\<close> of \<open>lib/insecurity\<close>, a parameter here, and
  runs statements that match \<^verbatim>\<open>/^UPDATE\s+/i\<close> as updates.
\<close>

definition UPDATE_STATEMENT :: regex where
  "UPDATE_STATEMENT = Regex True (lit ''UPDATE'' @ [Plus Space]) False"

definition executeSqlQuery ::
  "(string \<Rightarrow> bool) \<Rightarrow> 'w sequelize_query \<Rightarrow> string \<Rightarrow> jsval \<Rightarrow> 'w \<Rightarrow> jsval \<times> 'w" where
  "executeSqlQuery isDatabaseOperationAllowed sequelize_query query explanation w =
     (if \<not> isDatabaseOperationAllowed query
      then (JObj [(''error'', JStr (''This query cannot be executed for security reasons. ''
                     @ ''Only SELECT queries and safe UPDATE operations are allowed.'')),
                  (''explanation'', explanation)], w)
      else let isUpdateQuery = regex_test UPDATE_STATEMENT query
           in if isUpdateQuery
              then (case sequelize_query query UPDATE w of
                      (Inr results, w') \<Rightarrow>
                        (JObj [(''results'', JArr results),
                               (''explanation'', explanation),
                               (''message'', JStr ''Update operation completed successfully''),
                               (''affectedRows'',
                                  if truthy (element results 1) then element results 1
                                  else JNum 0)], w')
                    | (Inl err, w') \<Rightarrow>
                        (JObj [(''error'', JStr (''Failed to execute SQL query: '' @ err)),
                               (''explanation'', explanation)], w'))
              else (case sequelize_query
                           (if includesStr query ''LIMIT'' then query else query @ '' LIMIT 100'')
                           SELECT w of
                      (Inr results, w') \<Rightarrow>
                        (JObj [(''results'', JArr results),
                               (''explanation'', explanation),
                               (''rowCount'', JNum (of_nat (length results)))], w')
                    | (Inl err, w') \<Rightarrow>
                        (JObj [(''error'', JStr (''Failed to execute SQL query: '' @ err)),
                               (''explanation'', explanation)], w')))"

subsection \<open>Databases used to state what is executed\<close>



section \<open>Basket actions of the frontend service\<close>

text \<open>
  \<open>ChatbotService.handleBasketAction\<close> and \<open>resolveProductFromName\<close>. The services
  the component is injected with are the collaborators: the catalog search, the basket
  read and the basket write each return a value or throw, and act on the world \<open>'w\<close>
  behind the REST interface. \<open>sessionStorage.getItem('bid')\<close> is \<open>None\<close> for \<open>null\<close>;
  the basket read receives it and converts it with \<open>Number\<close>. \<open>numberToString\<close> is the
  conversion of a number to text that a template literal performs.
\<close>

definition MATCH_THRESHOLD :: number where
  "MATCH_THRESHOLD = 8 / 10"

record Product =
  product_id :: int
  product_name :: string
  product_price :: number

record ResolvedProduct =
  resolved_id :: int
  resolved_name :: string
  resolved_price :: number
  matches :: number

record BasketProduct =
  item_name :: string
  item_price :: number
  item_quantity :: number

record BasketParams =
  action :: string
  productName :: "string option"
  quantity :: "number option"

datatype ResponseAction =
    display_basket "BasketProduct list"
  | add_to_basket int number bool    \<comment> \<open>\<open>productId\<close>, \<open>quantity\<close>, \<open>needsConfirmation\<close>\<close>
  | basket_updated int string number  \<comment> \<open>\<open>addedProduct\<close>: \<open>id\<close>, \<open>name\<close>, \<open>quantity\<close>\<close>

record ChatResponse =
  responseText :: string
  error :: "bool option"
  success :: "bool option"
  requiresConfirmation :: "bool option"
  suggestions :: "string list option"
  responseAction :: "ResponseAction option"

record 'w services =
  productService_search :: "string option \<Rightarrow> 'w \<Rightarrow> (string + Product list option) \<times> 'w"
  basketService_find :: "string option \<Rightarrow> 'w \<Rightarrow> (string + BasketProduct list option) \<times> 'w"
  basketService_save :: "int \<Rightarrow> string \<Rightarrow> number \<Rightarrow> 'w \<Rightarrow> (string + unit) \<times> 'w"
  sessionStorage_bid :: "string option"
  numberToString :: "number \<Rightarrow> string"

definition plainResponse :: "string \<Rightarrow> ChatResponse" where
  "plainResponse t =
     \<lparr>responseText = t, error = None, success = None, requiresConfirmation = None,
      suggestions = None, responseAction = None\<rparr>"

text \<open>Template interpolation of an optional string and of a quantity.\<close>

definition interpolate :: "string option \<Rightarrow> string" where
  "interpolate v = (case v of None \<Rightarrow> ''undefined'' | Some t \<Rightarrow> t)"

text \<open>\<open>params.quantity || 1\<close>.\<close>

definition quantityOrOne :: "BasketParams \<Rightarrow> number" where
  "quantityOrOne params =
     (case quantity params of None \<Rightarrow> 1 | Some n \<Rightarrow> if n = 0 then 1 else n)"

text \<open>
  \<open>resolveProductFromName(productName)\<close>: search the catalog, score every hit against
  the name, sort by descending score (\<open>Array.prototype.sort\<close> is stable) and take the
  first. A failed search, no hits, or a missing name (\<open>toLowerCase\<close> of \<open>undefined\<close>
  throws inside the \<open>try\<close>) give \<open>null\<close>.
\<close>

definition resolveProductFromName ::
  "'w services \<Rightarrow> string option \<Rightarrow> 'w \<Rightarrow> ResolvedProduct option \<times> 'w" where
  "resolveProductFromName svc name_opt w =
     (case productService_search svc name_opt w of
        (Inl err, w') \<Rightarrow> (None, w')
      | (Inr None, w') \<Rightarrow> (None, w')
      | (Inr (Some products), w') \<Rightarrow>
          if products = [] then (None, w')
          else (case name_opt of
                  None \<Rightarrow> (None, w')
                | Some search \<Rightarrow>
                    let scoredProducts =
                          map (\<lambda>product.
                                 \<lparr>resolved_id = product_id product,
                                  resolved_name = product_name product,
                                  resolved_price = product_price product,
                                  matches = calculateNameMatchScore search (product_name product)\<rparr>)
                              products
                    in (Some (hd (sort_key (\<lambda>scored. - matches scored) scoredProducts)), w')))"

definition handleBasketAction ::
  "'w services \<Rightarrow> BasketParams \<Rightarrow> 'w \<Rightarrow> ChatResponse \<times> 'w" where
  "handleBasketAction svc params w =
     (if action params = ''view''
      then (case basketService_find svc (sessionStorage_bid svc) w of
              (Inl err, w') \<Rightarrow>
                ((plainResponse ''Sorry, I couldn't retrieve your basket.'')\<lparr>error := Some True\<rparr>, w')
            | (Inr None, w') \<Rightarrow>
                ((plainResponse ''Your basket is empty.'')
                   \<lparr>suggestions := Some [''View products'', ''Search products'']\<rparr>, w')
            | (Inr (Some basketProducts), w') \<Rightarrow>
                if basketProducts = []
                then ((plainResponse ''Your basket is empty.'')
                        \<lparr>suggestions := Some [''View products'', ''Search products'']\<rparr>, w')
                else ((plainResponse ''Here's what's in your basket:'')
                        \<lparr>responseAction := Some (display_basket basketProducts)\<rparr>, w'))
      else if action params = ''add''
      then (case resolveProductFromName svc (productName params) w of
              (None, w') \<Rightarrow>
                ((plainResponse (''I couldn't find a product matching \"''
                     @ interpolate (productName params)
                     @ ''\". Could you please be more specific?''))
                   \<lparr>suggestions := Some [''View all products'', ''Search products'']\<rparr>, w')
            | (Some product, w') \<Rightarrow>
                if matches product < MATCH_THRESHOLD
                then ((plainResponse (''Did you mean \"'' @ resolved_name product @ ''\"?''))
                        \<lparr>requiresConfirmation := Some True,
                         responseAction :=
                           Some (add_to_basket (resolved_id product) (quantityOrOne params) True)\<rparr>, w')
                else (case sessionStorage_bid svc of
                        None \<Rightarrow>
                          ((plainResponse (''Sorry, I couldn't add the item to your basket. ''
                               @ ''Please try refreshing the page.''))\<lparr>error := Some True\<rparr>, w')
                      | Some basketId \<Rightarrow>
                          if basketId = []
                          then ((plainResponse (''Sorry, I couldn't add the item to your basket. ''
                                   @ ''Please try refreshing the page.''))\<lparr>error := Some True\<rparr>, w')
                          else (case basketService_save svc (resolved_id product) basketId
                                       (quantityOrOne params) w' of
                                  (Inl err, w'') \<Rightarrow>
                                    ((plainResponse ''Sorry, I couldn't add the item to your basket.'')
                                       \<lparr>error := Some True\<rparr>, w'')
                                | (Inr saved, w'') \<Rightarrow>
                                    ((plainResponse (''Added '' @ numberToString svc (quantityOrOne params)
                                         @ ''x '' @ resolved_name product @ '' to your basket.''))
                                       \<lparr>success := Some True,
                                        responseAction :=
                                          Some (basket_updated (resolved_id product)
                                                  (resolved_name product) (quantityOrOne params))\<rparr>,
                                     w''))))
      else ((plainResponse ''I'm not sure how to handle that basket action.'')
              \<lparr>error := Some True\<rparr>, w))"

text \<open>
  A shop for concrete runs: the catalog search finds two juices, the basket write
  records what it is asked to save, and the session holds basket 5.
\<close>

definition juiceShop :: "(int \<times> string \<times> number) list services" where
  "juiceShop =
     \<lparr>productService_search = (\<lambda>q w.
        (Inr (Some [\<lparr>product_id = 1, product_name = ''Apple Juice'', product_price = 199 / 100\<rparr>,
                    \<lparr>product_id = 2, product_name = ''Orange Juice'', product_price = 299 / 100\<rparr>]), w)),
      basketService_find = (\<lambda>bid w. (Inr None, w)),
      basketService_save = (\<lambda>pid bid q w. (Inr (), w @ [(pid, bid, q)])),
      sessionStorage_bid = Some ''5'',
      numberToString = (\<lambda>n. if n = 1 then ''1'' else ''n'')\<rparr>"

section \<open>Chatbot routes\<close>

text \<open>
  \<open>routes/chatbot.ts\<close>: the Express handlers \<open>process\<close> and \<open>respond\<close>. A handler
  answers with \<open>res.status(code).json(value)\<close> or hands an exception to \<open>next\<close>. The
  request carries the session token (\<open>req.cookies.token || utils.jwtFrom(req)\<close>, \<open>None\<close>
  when that is falsy) and the two body fields the handlers read. Token verification
  with the user lookup, the greeting, the chat turn of \<open>lib/chatbot\<close> and the conversion
  \<open>String(user.id)\<close> are parameters.
\<close>

record User =
  user_id :: number
  username :: string

record request =
  token :: "string option"
  body_userId :: jsval
  body_query :: jsval

datatype httpResponse =
    Json nat jsval
  | Next string

record 'w routeEnv =
  getUserFromJwt :: "string \<Rightarrow> 'w \<Rightarrow> User option"
  chatbot_getGreeting :: "string \<Rightarrow> string"
  chatbot_processChat :: "jsval \<Rightarrow> jsval \<Rightarrow> string option \<Rightarrow> 'w \<Rightarrow> (string + jsval) \<times> 'w"
  String_of_number :: "number \<Rightarrow> string"

definition process :: "'w routeEnv \<Rightarrow> request \<Rightarrow> 'w \<Rightarrow> httpResponse \<times> 'w" where
  "process env req w =
     (let userId = (if truthy (body_userId req) then body_userId req else JStr ''anonymous'');
          query = body_query req
      in if \<not> truthy query
         then (Json 400 (JObj [(''error'', JStr ''No query provided'')]), w)
         else (case chatbot_processChat env userId query None w of
                 (Inr response, w') \<Rightarrow> (Json 200 response, w')
               | (Inl err, w') \<Rightarrow> (Next err, w')))"

definition respond :: "'w routeEnv \<Rightarrow> request \<Rightarrow> 'w \<Rightarrow> httpResponse \<times> 'w" where
  "respond env req w =
     (case token req of
        None \<Rightarrow> (Json 401 (JObj [(''error'', JStr ''Unauthenticated user'')]), w)
      | Some jwt \<Rightarrow>
          (case getUserFromJwt env jwt w of
             None \<Rightarrow> (Json 401 (JObj [(''error'', JStr ''Unauthenticated user'')]), w)
           | Some user \<Rightarrow>
               if \<not> truthy (body_query req)
               then (Json 200 (JObj [(''action'', JStr ''response''),
                                     (''body'', JStr (chatbot_getGreeting env (username user)))]), w)
               else (let userId = String_of_number env (user_id user)
                     in case chatbot_processChat env (JStr userId) (body_query req)
                               (Some (username user)) w of
                          (Inr response, w') \<Rightarrow> (Json 200 response, w')
                        | (Inl err, w') \<Rightarrow> (Next err, w'))))"

text \<open>A server for concrete runs: one session token, that of user 2.\<close>

definition jimsServer :: "unit routeEnv" where
  "jimsServer =
     \<lparr>getUserFromJwt = (\<lambda>jwt w. if jwt = ''token-of-jim''
                                 then Some \<lparr>user_id = 2, username = ''jim''\<rparr> else None),
      chatbot_getGreeting = (\<lambda>u. ''Nice to meet you, '' @ u),
      chatbot_processChat = (\<lambda>userId query u w.
         (Inr (JObj [(''action'', JStr ''response''), (''body'', JStr ''...'')]), w)),
      String_of_number = (\<lambda>n. if n = 2 then ''2'' else ''0'')\<rparr>"

section \<open>Tool dispatcher\<close>

text \<open>
  The second version of \<open>lib/chatbot.ts\<close>. The catalog \<open>botTools\<close> declares eight
  tools; each entry is kept with its name and its required parameters.
\<close>

definition botTools :: "(string \<times> string list) list" where
  "botTools =
     [(''get_product_information'', [''query'']),
      (''get_user_information'', [''userId'']),
      (''add_to_basket'', [''userId'', ''productId'', ''quantity'']),
      (''get_basket'', [''userId'']),
      (''remove_from_basket'', [''userId'', ''productId'']),
      (''generate_coupon'', [''discount'']),
      (''execute_sql_query'', [''query'', ''explanation'']),
      (''execute_linux_command'', [''command'', ''userId''])]"

definition toolCatalog :: "string list" where
  "toolCatalog = map fst botTools"

text \<open>
  A call of one of the tool functions with its actual arguments. The tool functions
  catch their own exceptions and return an object, so running a call yields a value
  and a new state of the world (database, operating system).
\<close>

datatype invocation =
    GetProductInformation jsval           \<comment> \<open>\<open>getProductInformation(query)\<close>\<close>
  | GetUserInformation jsval              \<comment> \<open>\<open>getUserInformation(userId)\<close>\<close>
  | AddToBasket jsval jsval jsval         \<comment> \<open>\<open>addToBasket(userId, productId, quantity)\<close>\<close>
  | GetBasket jsval                       \<comment> \<open>\<open>getBasket(userId)\<close>\<close>
  | RemoveFromBasket jsval jsval jsval    \<comment> \<open>\<open>removeFromBasket(userId, productId, quantity)\<close>\<close>
  | GenerateCoupon jsval                  \<comment> \<open>\<open>generateCoupon(discount)\<close>\<close>
  | ExecuteSqlQuery jsval jsval           \<comment> \<open>\<open>executeSqlQuery(query, explanation)\<close>\<close>
  | ExecuteLinuxCommand jsval jsval       \<comment> \<open>\<open>executeLinuxCommand(command, userId)\<close>\<close>

type_synonym 'w toolRunner = "invocation \<Rightarrow> 'w \<Rightarrow> jsval \<times> 'w"

text \<open>Property write \<open>o.k = v\<close> on an object, also used for the spread \<open>{...o, k: v}\<close>.\<close>

fun assign :: "jsval \<Rightarrow> string \<Rightarrow> jsval \<Rightarrow> jsval" where
  "assign (JObj kvs) k v =
     (case map_of kvs k of
        None \<Rightarrow> JObj (kvs @ [(k, v)])
      | Some old \<Rightarrow> JObj (map (\<lambda>(k', v'). if k' = k then (k', v) else (k', v')) kvs))"
| "assign other k v = other"

text \<open>
  \<open>parseInt(s, 10)\<close>: leading white space is skipped, a sign is read, and the longest
  run of decimal digits gives the value; without a digit the result is \<open>NaN\<close>. The value
  is a double: an integer of more than 53 bits is rounded to the nearest one with 53
  significant bits, ties to the even one, and to \<open>Infinity\<close> from
  \<open>2\<^sup>1\<^sup>0\<^sup>2\<^sup>4 - 2\<^sup>9\<^sup>7\<^sup>0\<close> on.
\<close>

definition isDigit :: "char \<Rightarrow> bool" where
  "isDigit c = (let n = (of_char c :: nat) in 48 \<le> n \<and> n \<le> 57)"

definition digitsValue :: "string \<Rightarrow> int" where
  "digitsValue ds = foldl (\<lambda>acc d. 10 * acc + (of_char d - 48)) 0 ds"

function bitLength :: "int \<Rightarrow> nat" where
  "bitLength n = (if n \<le> 0 then 0 else Suc (bitLength (n div 2)))"
  by pat_completeness auto

termination bitLength
  by (relation "measure nat") auto

definition roundToDouble :: "int \<Rightarrow> int option" where
  "roundToDouble n =
     (if bitLength n \<le> 53 then Some n
      else let e = bitLength n - 53;
               q = n div 2 ^ e;
               r = n mod 2 ^ e;
               half = 2 ^ (e - 1);
               rounded = (if r > half \<or> (r = half \<and> odd q) then (q + 1) * 2 ^ e else q * 2 ^ e)
           in if rounded < 2 ^ 1024 then Some rounded else None)"

definition parseInt10 :: "string \<Rightarrow> jsval" where
  "parseInt10 s =
     (let trimmed = dropWhile isWhiteSpace s;
          negative = (case trimmed of [] \<Rightarrow> False | c # _ \<Rightarrow> c = CHR ''-'');
          unsigned = (case trimmed of
                        [] \<Rightarrow> []
                      | c # cs \<Rightarrow> if c = CHR ''-'' \<or> c = CHR ''+'' then cs else trimmed);
          digits = takeWhile isDigit unsigned
      in if digits = [] then JNaN
         else (case roundToDouble (digitsValue digits) of
                 Some v \<Rightarrow> JNum (if negative then - of_int v else of_int v)
               | None \<Rightarrow> if negative then JNegInfinity else JInfinity))"

text \<open>\<open>typeof v === 'string' ? parseInt(v, 10) : v\<close>.\<close>

definition ensureNumber :: "jsval \<Rightarrow> jsval" where
  "ensureNumber v = (case v of JStr s \<Rightarrow> parseInt10 s | _ \<Rightarrow> v)"

text \<open>
  \<open>executeToolFunction(functionName, parameters)\<close>: the \<open>switch\<close> on the tool name. The
  default case throws \<open>Unknown function\<close>, and the surrounding \<open>catch\<close> turns every
  exception into an object with an \<open>error\<close> field. In the \<open>get_basket\<close> case the
  \<open>items\<close> mapping calls \<open>map\<close> on \<open>result.products\<close>, which throws when that value is
  truthy and not an array.
\<close>

definition basketItemView :: "jsval \<Rightarrow> jsval" where
  "basketItemView product =
     JObj [(''id'', field product ''id''),
           (''name'', field product ''name''),
           (''price'', field product ''price''),
           (''quantity'', field product ''quantity''),
           (''productId'', field product ''id'')]"

definition executeToolFunction :: "'w toolRunner \<Rightarrow> string \<Rightarrow> jsval \<Rightarrow> 'w \<Rightarrow> jsval \<times> 'w" where
  "executeToolFunction run functionName parameters w =
     (if functionName = ''get_product_information''
      then run (GetProductInformation (field parameters ''query'')) w
      else if functionName = ''get_user_information''
      then run (GetUserInformation (field parameters ''userId'')) w
      else if functionName = ''add_to_basket''
      then (let productId = ensureNumber (field parameters ''productId'')
            in run (AddToBasket (field parameters ''userId'') productId
                      (field parameters ''quantity'')) w)
      else if functionName = ''get_basket''
      then (case run (GetBasket (field parameters ''userId'')) w of
              (result, w') \<Rightarrow>
                if \<not> truthy (field result ''error'') \<and> truthy (field result ''products'')
                then (case field result ''products'' of
                        JArr products \<Rightarrow>
                          (assign result ''items'' (JArr (map basketItemView products)), w')
                      | notAnArray \<Rightarrow>
                          (JObj [(''error'', JStr (''Error executing function get_basket: ''
                                     @ ''result.products.map is not a function''))], w'))
                else (result, w'))
      else if functionName = ''remove_from_basket''
      then (let removeProductId = ensureNumber (field parameters ''productId'')
            in run (RemoveFromBasket (field parameters ''userId'') removeProductId
                      (field parameters ''quantity'')) w)
      else if functionName = ''generate_coupon''
      then run (GenerateCoupon (field parameters ''discount'')) w
      else if functionName = ''execute_sql_query''
      then run (ExecuteSqlQuery (field parameters ''query'') (field parameters ''explanation'')) w
      else if functionName = ''execute_linux_command''
      then run (ExecuteLinuxCommand (field parameters ''command'') (field parameters ''userId'')) w
      else (JObj [(''error'', JStr (''Error executing function '' @ functionName
                     @ '': Unknown function: '' @ functionName))], w))"

section \<open>Command tool\<close>

text \<open>
  \<open>executeLinuxCommand(command, userId)\<close>. \<open>execAsync\<close> is the shell: given the
  command and the timeout in milliseconds it returns the two output streams or throws.
\<close>

type_synonym 'w shell = "string \<Rightarrow> nat \<Rightarrow> 'w \<Rightarrow> (string + string \<times> string) \<times> 'w"

definition executeLinuxCommand :: "'w shell \<Rightarrow> string \<Rightarrow> jsval \<Rightarrow> 'w \<Rightarrow> jsval \<times> 'w" where
  "executeLinuxCommand execAsync command userId w =
     (case execAsync command 30000 w of
        (Inr (stdout, stderr), w') \<Rightarrow>
          (JObj [(''stdout'', JStr stdout),
                 (''stderr'', JStr stderr),
                 (''explanation'', JStr (''Command executed successfully: '' @ command)),
                 (''message'', JStr ''Command execution completed successfully'')], w')
      | (Inl err, w') \<Rightarrow>
          (JObj [(''error'', JStr (''Failed to execute Linux command: '' @ err)),
                 (''explanation'', JStr (''Command execution failed: '' @ command))], w'))"

text \<open>
  The tool functions as the dispatcher runs them. The coupon tool takes whatever value
  the arguments hold. The SQL and the command tool are modelled for a statement and a
  command that are strings; those calls with another value, and the database-backed
  tools, are left to \<open>otherTools\<close>.
\<close>

record 'w backend =
  textToNumber :: "jsval \<Rightarrow> jsnumber"
  security_generateCoupon :: "jsnumber \<Rightarrow> string + string"
  security_isDatabaseOperationAllowed :: "string \<Rightarrow> bool"
  sequelize_query :: "'w sequelize_query"
  execAsync :: "'w shell"
  otherTools :: "'w toolRunner"

fun chatbotTools :: "'w backend \<Rightarrow> 'w toolRunner" where
  "chatbotTools b (GenerateCoupon discount) w =
     (generateCoupon (textToNumber b) (security_generateCoupon b) discount, w)"
| "chatbotTools b (ExecuteSqlQuery (JStr query) explanation) w =
     executeSqlQuery (security_isDatabaseOperationAllowed b) (sequelize_query b) query explanation w"
| "chatbotTools b (ExecuteLinuxCommand (JStr command) userId) w =
     executeLinuxCommand (execAsync b) command userId w"
| "chatbotTools b call w = otherTools b call w"

text \<open>
  A host for concrete runs. Its world is the list of commands the shell has run; the
  shell runs every command it is given and prints nothing. The runs convert no text to
  a number.
\<close>

definition recordingShell :: "string list shell" where
  "recordingShell command timeout executed = (Inr ([], []), executed @ [command])"

definition recordingHost :: "string list backend" where
  "recordingHost =
     \<lparr>textToNumber = (\<lambda>v. NaN),
      security_generateCoupon = (\<lambda>d. Inr ''COUPON''),
      security_isDatabaseOperationAllowed = (\<lambda>q. False),
      sequelize_query = (\<lambda>sql ty executed. (Inl ''no database'', executed)),
      execAsync = recordingShell,
      otherTools = (\<lambda>call executed. (JObj [(''error'', JStr ''not available'')], executed))\<rparr>"

section \<open>Conversation orchestrator\<close>

text \<open>
  \<open>processChat(userId, query, username)\<close> of the second version of \<open>lib/chatbot.ts\<close>.
  The state of a turn is the history store together with the world outside the
  program. The collaborators are parameters: the configured API key, system prompt and
  greeting; the request to the language model (\<open>axios.post\<close>), which is told whether the
  tool catalog is offered and either fails, returns a body without
  \<open>choices[0].message\<close>, or returns a message; \<open>JSON.parse\<close> of a tool call's argument
  text, which fails or yields the fields of an object; \<open>JSON.stringify\<close>; the conversion
  of a value to text in a template literal; and the tool functions.
\<close>

record assistantMessage =
  reply_content :: "string option"
  reply_name :: "string option"
  tool_calls :: "(string \<times> string) list"   \<comment> \<open>\<open>function.name\<close>, \<open>function.arguments\<close>\<close>

datatype llmReply =
    RequestFailed
  | Malformed
  | Reply assistantMessage

record 'w chatEnv =
  LLM_API_KEY :: string
  LLM_SYSTEM_PROMPT :: string
  getGreeting :: string
  axios_post :: "message list \<Rightarrow> bool \<Rightarrow> 'w \<Rightarrow> llmReply \<times> 'w"
  JSON_parse :: "string \<Rightarrow> (string \<times> jsval) list option"
  JSON_stringify :: "jsval \<Rightarrow> string"
  toText :: "jsval \<Rightarrow> string"
  runTool :: "'w toolRunner"

type_synonym 'w turnState = "ConversationHistory \<times> 'w"

text \<open>
  \<open>getConversationHistory(userId)\<close>: create the log with the system message and the
  greeting when the read of the user's name is falsy, and return what the read yields
  then: the log, or the member of \<open>Object.prototype\<close> of that name.
\<close>

definition getConversationHistory ::
  "'w chatEnv \<Rightarrow> ConversationHistory \<Rightarrow> string \<Rightarrow> storedValue \<times> ConversationHistory" where
  "getConversationHistory env conversationHistories userId =
     (case propertyRead conversationHistories userId of
        None \<Rightarrow>
          (let created = [systemMessage (LLM_SYSTEM_PROMPT env),
                          \<lparr>role = Assistant, content = getGreeting env, name = None\<rparr>]
           in (Log created, conversationHistories(userId \<mapsto> created)))
      | Some v \<Rightarrow> (v, conversationHistories))"

definition chatResponse :: "jsval \<Rightarrow> jsval" where
  "chatResponse responseBody = JObj [(''action'', JStr ''response''), (''body'', responseBody)]"

definition chatResponseWithData :: "jsval \<Rightarrow> jsval \<Rightarrow> jsval" where
  "chatResponseWithData responseBody responseData =
     JObj [(''action'', JStr ''response''), (''body'', responseBody), (''data'', responseData)]"

text \<open>The response of the outermost \<open>catch\<close> of \<open>processChat\<close>.\<close>

definition errorInChatbot :: jsval where
  "errorInChatbot =
     chatResponse (JStr (''Sorry, I encountered an error while processing your request. ''
                         @ ''Please try again later.''))"

text \<open>\<open>v.length\<close> and the comparisons \<open>> 0\<close> and \<open>=== 0\<close> on it.\<close>

definition lengthOf :: "jsval \<Rightarrow> jsval" where
  "lengthOf v =
     (case v of
        JArr xs \<Rightarrow> JNum (of_nat (length xs))
      | JStr s \<Rightarrow> JNum (of_nat (length s))
      | other \<Rightarrow> field v ''length'')"

definition greaterThanZero :: "jsval \<Rightarrow> bool" where
  "greaterThanZero v = (case v of JNum n \<Rightarrow> 0 < n | JInfinity \<Rightarrow> True | other \<Rightarrow> False)"

fun join_lines :: "string list \<Rightarrow> string" where
  "join_lines [] = []"
| "join_lines [l] = l"
| "join_lines (l # m # ls) = l @ CHR 0x0A # join_lines (m # ls)"

text \<open>
  \<open>s.replace(pattern, replacement)\<close> with a string pattern: the first occurrence is
  replaced. In the replacement text \<^verbatim>\<open>$$\<close> stands for a dollar sign, \<^verbatim>\<open>$&\<close> for the
  matched text, and a dollar sign followed by a backquote or by a quote for the text
  before or after the match; any other dollar sign stands for itself, as a string
  pattern has no groups.
\<close>

fun expandReplacement :: "string \<Rightarrow> string \<Rightarrow> string \<Rightarrow> string \<Rightarrow> string" where
  "expandReplacement preceding matched following [] = []"
| "expandReplacement preceding matched following [c] = [c]"
| "expandReplacement preceding matched following (c # d # cs) =
     (if c = CHR ''$'' \<and> d = CHR ''$''
      then CHR ''$'' # expandReplacement preceding matched following cs
      else if c = CHR ''$'' \<and> d = CHR ''&''
      then matched @ expandReplacement preceding matched following cs
      else if c = CHR ''$'' \<and> d = CHR 0x60
      then preceding @ expandReplacement preceding matched following cs
      else if c = CHR ''$'' \<and> d = CHR 0x27
      then following @ expandReplacement preceding matched following cs
      else c # expandReplacement preceding matched following (d # cs))"

fun replaceFrom :: "string \<Rightarrow> string \<Rightarrow> string \<Rightarrow> string \<Rightarrow> string" where
  "replaceFrom preceding pattern replacement [] =
     (if pattern = [] then preceding @ expandReplacement preceding [] [] replacement else preceding)"
| "replaceFrom preceding pattern replacement (c # cs) =
     (if prefix pattern (c # cs)
      then preceding
           @ expandReplacement preceding pattern (drop (length pattern) (c # cs)) replacement
           @ drop (length pattern) (c # cs)
      else replaceFrom (preceding @ [c]) pattern replacement cs)"

definition replaceFirst :: "string \<Rightarrow> string \<Rightarrow> string \<Rightarrow> string" where
  "replaceFirst pattern replacement s = replaceFrom [] pattern replacement s"

definition isProductQuery :: "string \<Rightarrow> bool" where
  "isProductQuery query =
     list_ex (\<lambda>term. includesStr (toLowerCase query) term)
       [''product'', ''item'', ''sell'', ''price'', ''cost'', ''available'', ''stock'',
        ''what do you have'', ''what do you sell'', ''merchandise'', ''catalog'']"

text \<open>
  After a basket change succeeded the basket is read again for the session's user. The
  two copies of this code differ in one word (\<open>added\<close>, \<open>removed\<close>).
\<close>

definition verifyBasket ::
  "'w chatEnv \<Rightarrow> string \<Rightarrow> string \<Rightarrow> jsval \<Rightarrow> 'w turnState \<Rightarrow> jsval \<times> 'w turnState" where
  "verifyBasket env userId change functionResult st =
     (case st of (hs, w) \<Rightarrow>
      case runTool env (GetBasket (JStr userId)) w of
        (basketCheck, w') \<Rightarrow>
          if truthy (field basketCheck ''error'')
          then (chatResponseWithData
                  (JStr (toText env (field functionResult ''message'')
                         @ ''. However, I had trouble verifying your basket contents: ''
                         @ toText env (field basketCheck ''error'')))
                  functionResult, (hs, w'))
          else if \<not> truthy (field basketCheck ''empty'')
                  \<and> truthy (field basketCheck ''products'')
                  \<and> greaterThanZero (lengthOf (field basketCheck ''products''))
          then (chatResponseWithData
                  (JStr (toText env (field functionResult ''message'')
                         @ ''. Your basket now contains ''
                         @ toText env (lengthOf (field basketCheck ''products''))
                         @ '' item(s).''))
                  (assign functionResult ''basketContents'' (field basketCheck ''products'')),
                (hs, w'))
          else (chatResponseWithData
                  (JStr (toText env (field functionResult ''message'')
                         @ ''. However, I'm having trouble displaying your basket contents. ''
                         @ ''The item was '' @ change
                         @ '', but you may need to refresh your page to see it.''))
                  (assign functionResult ''basketCheckFailed'' (JBool True)),
                (hs, w')))"

text \<open>
  \<open>functionResult.error && functionResult.error.includes('User not found')\<close>; \<open>None\<close>
  when \<open>includes\<close> is not a function of the error value, which throws.
\<close>

definition userNotFound :: "jsval \<Rightarrow> bool option" where
  "userNotFound functionResult =
     (case field functionResult ''error'' of
        JStr e \<Rightarrow> Some (e \<noteq> [] \<and> includesStr e ''User not found'')
      | JArr xs \<Rightarrow> Some (JStr ''User not found'' \<in> set xs)
      | other \<Rightarrow> if truthy other then None else Some False)"

text \<open>
  The tool result goes into the history and the model is asked, without tools, to put
  it into words. \<open>followUpMessages\<close> is the message list of that request: the history,
  and a hint when an SQL query failed. There is no list when the append throws, or when
  the spread \<open>[...getConversationHistory(userId)]\<close> throws because the value read is no
  log; the store is returned as it is at that point.
\<close>

definition followUpMessages ::
  "'w chatEnv \<Rightarrow> string \<Rightarrow> string \<Rightarrow> jsval \<Rightarrow> ConversationHistory
     \<Rightarrow> message list option \<times> ConversationHistory" where
  "followUpMessages env userId functionName functionResult hs =
     (case addToConversationHistory (LLM_SYSTEM_PROMPT env) hs userId
             \<lparr>role = Function, content = JSON_stringify env functionResult,
              name = Some functionName\<rparr> of
        Inl thrown \<Rightarrow> (None, hs)
      | Inr hs1 \<Rightarrow>
          let functionContextMessage =
                (if functionName = ''execute_sql_query'' \<and> truthy (field functionResult ''error'')
                 then [CHR 0x0A] @ ''When using SQL queries, remember:'' @ [CHR 0x0A]
                      @ ''- Sensitive tables like SecurityAnswers, are restricted'' @ [CHR 0x0A]
                      @ ''- Queries are limited to return at most 100 rows'' @ [CHR 0x0A]
                      @ ''- Keep queries simple and avoid complex operations'' @ [CHR 0x0A]
                 else [])
          in case getConversationHistory env hs1 userId of
               (PrototypeMember, hs2) \<Rightarrow> (None, hs2)
             | (Log history, hs2) \<Rightarrow>
                 (Some (if functionContextMessage \<noteq> []
                        then history @ [\<lparr>role = System, content = functionContextMessage,
                                        name = None\<rparr>]
                        else history), hs2))"

definition interpretResult ::
  "'w chatEnv \<Rightarrow> string \<Rightarrow> string \<Rightarrow> jsval \<Rightarrow> 'w turnState \<Rightarrow> jsval \<times> 'w turnState" where
  "interpretResult env userId functionName functionResult st =
     (case st of (hs, w) \<Rightarrow>
      case followUpMessages env userId functionName functionResult hs of
        (None, hs2) \<Rightarrow> (errorInChatbot, (hs2, w))
      | (Some messages, hs2) \<Rightarrow>
          (case axios_post env messages False w of
             (RequestFailed, w') \<Rightarrow>
               (chatResponse (JStr (''I encountered an error while processing your request ''
                                    @ ''results. Please try again later.'')), (hs2, w'))
           | (Malformed, w') \<Rightarrow> (errorInChatbot, (hs2, w'))
           | (Reply finalMessage, w') \<Rightarrow>
               (case addToConversationHistory (LLM_SYSTEM_PROMPT env) hs2 userId
                       \<lparr>role = Assistant,
                        content = (case reply_content finalMessage of None \<Rightarrow> [] | Some t \<Rightarrow> t),
                        name = None\<rparr> of
                  Inl thrown \<Rightarrow> (errorInChatbot, (hs2, w'))
                | Inr hs3 \<Rightarrow>
                    (chatResponseWithData
                       (case reply_content finalMessage of None \<Rightarrow> JNull | Some t \<Rightarrow> JStr t)
                       functionResult, (hs3, w')))))"

text \<open>What \<open>processChat\<close> does with the result of the dispatcher.\<close>

definition afterToolCall ::
  "'w chatEnv \<Rightarrow> string \<Rightarrow> string \<Rightarrow> jsval \<Rightarrow> 'w turnState \<Rightarrow> jsval \<times> 'w turnState" where
  "afterToolCall env userId functionName functionResult st =
     (if functionName = ''add_to_basket'' \<and> truthy (field functionResult ''error'')
      then (chatResponseWithData
              (JStr (''I couldn't add that item to your basket: ''
                     @ toText env (field functionResult ''error'')
                     @ ''. Please try again or contact customer support if the problem persists.''))
              functionResult, st)
      else if functionName = ''add_to_basket'' \<and> truthy (field functionResult ''success'')
      then verifyBasket env userId ''added'' functionResult st
      else if functionName = ''remove_from_basket'' \<and> truthy (field functionResult ''error'')
      then (chatResponseWithData
              (JStr (''I had trouble removing that item from your basket: ''
                     @ toText env (field functionResult ''error'')
                     @ ''. Please try refreshing your page or contact customer support.''))
              functionResult, st)
      else if functionName = ''remove_from_basket'' \<and> truthy (field functionResult ''success'')
      then verifyBasket env userId ''removed'' functionResult st
      else if functionName = ''get_basket'' \<and> truthy (field functionResult ''error'')
      then (chatResponseWithData
              (JStr (''I had trouble retrieving your basket: ''
                     @ toText env (field functionResult ''error'')
                     @ ''. Please try refreshing your page or contact customer support.''))
              functionResult, st)
      else if functionName = ''get_basket''
              \<and> (truthy (field functionResult ''empty'')
                  \<or> (truthy (field functionResult ''products'')
                      \<and> lengthOf (field functionResult ''products'') = JNum 0))
      then (chatResponseWithData
              (JStr (''Your basket is currently empty. ''
                     @ ''Would you like me to help you find some products to add?''))
              functionResult, st)
      else (case userNotFound functionResult of
              None \<Rightarrow> (errorInChatbot, st)
            | Some True \<Rightarrow>
                (chatResponse
                   (JStr (''I couldn't access your user information. This might be due to a ''
                          @ ''session issue. Please try logging out and back in, or contact ''
                          @ ''customer support if the problem persists.'')), st)
            | Some False \<Rightarrow> interpretResult env userId functionName functionResult st))"

text \<open>
  The tool-call branch of \<open>processChat\<close>: parse the arguments of the first tool call,
  set \<open>parameters.userId\<close> to the session's user for the three listed tools, and call
  the dispatcher.
\<close>

definition processToolCall ::
  "'w chatEnv \<Rightarrow> string \<Rightarrow> string \<Rightarrow> string \<Rightarrow> 'w turnState \<Rightarrow> jsval \<times> 'w turnState" where
  "processToolCall env userId functionName argumentsText st =
     (case st of (hs, w) \<Rightarrow>
      case JSON_parse env argumentsText of
        None \<Rightarrow>
          (chatResponse (JStr (''I encountered an error while processing your request. ''
                               @ ''Please try a different query.'')), (hs, w))
      | Some parsed \<Rightarrow>
          let parameters =
                (if functionName \<in> set [''get_user_information'', ''add_to_basket'', ''get_basket'']
                 then assign (JObj parsed) ''userId'' (JStr userId)
                 else JObj parsed)
          in case executeToolFunction (runTool env) functionName parameters w of
               (functionResult, w') \<Rightarrow>
                 afterToolCall env userId functionName functionResult (hs, w'))"

text \<open>
  The part of \<open>processChat\<close> after the direct product answer. Every exception ends in
  the outermost \<open>catch\<close>, with the store and the world as they are at the throw. When the
  user's name reads as a member of \<open>Object.prototype\<close>, either \<open>history[0].content\<close>
  throws (a user name is given and the member is a function of one parameter, so that
  \<open>history.length === 1\<close>) or the \<open>push\<close> of the append that follows does, before anything
  else happens.
\<close>

definition askModel ::
  "'w chatEnv \<Rightarrow> string \<Rightarrow> string \<Rightarrow> string option \<Rightarrow> 'w turnState \<Rightarrow> jsval \<times> 'w turnState" where
  "askModel env userId query username' st =
     (case st of (hs, w) \<Rightarrow>
      case getConversationHistory env hs userId of
        (PrototypeMember, hs1) \<Rightarrow> (errorInChatbot, (hs1, w))
      | (Log history, hs1) \<Rightarrow>
          let hs2 = (case username' of
                       None \<Rightarrow> hs1
                     | Some u \<Rightarrow>
                         if u \<noteq> [] \<and> length history = 1
                         then hs1(userId \<mapsto>
                                [(hd history)\<lparr>content :=
                                    replaceFirst ''<customer-name>'' u (content (hd history))\<rparr>])
                         else hs1)
          in case addToConversationHistory (LLM_SYSTEM_PROMPT env) hs2 userId
                    \<lparr>role = User, content = query, name = None\<rparr> of
               Inl thrown \<Rightarrow> (errorInChatbot, (hs2, w))
             | Inr hs3 \<Rightarrow>
                 (case getConversationHistory env hs3 userId of
                    (PrototypeMember, hs4) \<Rightarrow> (errorInChatbot, (hs4, w))
                  | (Log history', hs4) \<Rightarrow>
                      (case axios_post env history' True w of
                         (RequestFailed, w') \<Rightarrow>
                           (chatResponse (JStr (''Sorry, there was an error communicating with the ''
                                                @ ''AI service. Please try again later.'')), (hs4, w'))
                       | (Malformed, w') \<Rightarrow> (errorInChatbot, (hs4, w'))
                       | (Reply assistantMessage, w') \<Rightarrow>
                           (case addToConversationHistory (LLM_SYSTEM_PROMPT env) hs4 userId
                                   \<lparr>role = Assistant,
                                    content = (case reply_content assistantMessage of
                                                 None \<Rightarrow> [] | Some t \<Rightarrow> t),
                                    name = reply_name assistantMessage\<rparr> of
                              Inl thrown \<Rightarrow> (errorInChatbot, (hs4, w'))
                            | Inr hs5 \<Rightarrow>
                                (case tool_calls assistantMessage of
                                   [] \<Rightarrow>
                                     (chatResponse (case reply_content assistantMessage of
                                                      None \<Rightarrow> JNull | Some t \<Rightarrow> JStr t),
                                      (hs5, w'))
                                 | (functionName, argumentsText) # others \<Rightarrow>
                                     processToolCall env userId functionName argumentsText
                                       (hs5, w'))))))"

definition processChat ::
  "'w chatEnv \<Rightarrow> string \<Rightarrow> string \<Rightarrow> string option \<Rightarrow> 'w turnState \<Rightarrow> jsval \<times> 'w turnState" where
  "processChat env userId query username' st =
     (case st of (hs, w) \<Rightarrow>
      if LLM_API_KEY env = []
      then (chatResponse (JStr (''Sorry, I'm not properly configured at the moment. ''
                                @ ''Please try again later or contact support.'')), (hs, w))
      else if isProductQuery query
      then (case runTool env (GetProductInformation (JStr query)) w of
              (functionResult, w') \<Rightarrow>
                (case field functionResult ''products'' of
                   JArr products \<Rightarrow>
                     if products \<noteq> []
                     then (let productList =
                                 join_lines (map (\<lambda>p. toText env (field p ''name'') @ '' - $''
                                                       @ toText env (field p ''price''))
                                               (take 5 products));
                               totalProducts = length products;
                               response =
                                 (if totalProducts > 5
                                  then ''Here are some of our products:'' @ [CHR 0x0A, CHR 0x0A]
                                       @ productList @ [CHR 0x0A, CHR 0x0A] @ ''...and ''
                                       @ toText env (JNum (of_nat (totalProducts - 5)))
                                       @ '' more. Would you like more details about any specific product?''
                                  else ''Here are our products:'' @ [CHR 0x0A, CHR 0x0A]
                                       @ productList @ [CHR 0x0A, CHR 0x0A]
                                       @ ''Would you like more details about any of these?'')
                           in case addToConversationHistory (LLM_SYSTEM_PROMPT env) hs userId
                                     \<lparr>role = User, content = query, name = None\<rparr> of
                                Inl thrown \<Rightarrow> askModel env userId query username' (hs, w')
                              | Inr hs1 \<Rightarrow>
                                  (case addToConversationHistory (LLM_SYSTEM_PROMPT env) hs1 userId
                                          \<lparr>role = Assistant, content = response, name = None\<rparr> of
                                     Inl thrown \<Rightarrow> askModel env userId query username' (hs1, w')
                                   | Inr hs2 \<Rightarrow>
                                       (chatResponseWithData (JStr response) functionResult,
                                        (hs2, w'))))
                     else askModel env userId query username' (hs, w')
                 | other \<Rightarrow> askModel env userId query username' (hs, w')))
      else askModel env userId query username' (hs, w))"

text \<open>
  A model provider and tool functions for concrete runs. The world is the list of tool
  calls made so far; every tool call is recorded and reports success. The argument
  texts that occur in the runs are parsed as \<open>JSON.parse\<close> does.
\<close>

definition recordingTools :: "invocation list toolRunner" where
  "recordingTools call calls = (JObj [(''success'', JBool True), (''message'', JStr ''done'')], calls @ [call])"

definition recordingChat :: "invocation list chatEnv" where
  "recordingChat =
     \<lparr>LLM_API_KEY = ''sk-test'',
      LLM_SYSTEM_PROMPT = ''You are a shopping assistant.'',
      getGreeting = ''Hello!'',
      axios_post = (\<lambda>messages offered calls.
         (Reply \<lparr>reply_content = Some ''Done.'', reply_name = None, tool_calls = []\<rparr>, calls)),
      JSON_parse = (\<lambda>t.
         if t = ''{\"userId\":\"2\",\"productId\":1}''
         then Some [(''userId'', JStr ''2''), (''productId'', JNum 1)]
         else if t = ''{\"userId\":\"2\",\"productId\":1,\"quantity\":1}''
         then Some [(''userId'', JStr ''2''), (''productId'', JNum 1), (''quantity'', JNum 1)]
         else if t = ''{}'' then Some []
         else None),
      JSON_stringify = (\<lambda>v. ''{}''),
      toText = (\<lambda>v. case v of JStr t \<Rightarrow> t | other \<Rightarrow> ''?''),
      runTool = recordingTools\<rparr>"

section \<open>Properties of the history window\<close>

lemma propertyRead_cases:
  "propertyRead hs u =
     (if hs u \<noteq> None then Some (Log (the (hs u)))
      else if u \<in> set objectPrototypeKeys then Some PrototypeMember else None)"
  by (simp add: propertyRead_def split: option.splits)

lemma addToConversationHistory_throws:
  "hs u = None \<Longrightarrow> u \<in> set objectPrototypeKeys \<Longrightarrow>
   addToConversationHistory p hs u m =
     Inl ''TypeError: conversationHistories[userId].push is not a function''"
  by (simp add: addToConversationHistory_def propertyRead_def)

lemma addToConversationHistory_returns:
  "hs u \<noteq> None \<or> u \<notin> set objectPrototypeKeys \<Longrightarrow>
   addToConversationHistory p hs u m =
     Inr (let pushed = historyBefore p hs u @ [m]
          in if length pushed > MAX_HISTORY_LENGTH + 1
             then hs(u \<mapsto> hd pushed # drop (length pushed - MAX_HISTORY_LENGTH) pushed)
             else hs(u \<mapsto> pushed))"
  by (auto simp add: addToConversationHistory_def propertyRead_def historyBefore_def Let_def
      split: option.splits)

lemma addToConversationHistory_returns_iff:
  "(\<exists>hs'. addToConversationHistory p hs u m = Inr hs') \<longleftrightarrow>
   hs u \<noteq> None \<or> u \<notin> set objectPrototypeKeys"
proof (cases "hs u \<noteq> None \<or> u \<notin> set objectPrototypeKeys")
  case True
  then show ?thesis by (simp add: addToConversationHistory_returns)
next
  case False
  then show ?thesis by (simp add: addToConversationHistory_throws)
qed

lemma addToConversationHistory_result:
  assumes "addToConversationHistory p hs u m = Inr hs'"
  shows "hs' = (let pushed = historyBefore p hs u @ [m]
                in if length pushed > MAX_HISTORY_LENGTH + 1
                   then hs(u \<mapsto> hd pushed # drop (length pushed - MAX_HISTORY_LENGTH) pushed)
                   else hs(u \<mapsto> pushed))"
proof -
  from assms have "hs u \<noteq> None \<or> u \<notin> set objectPrototypeKeys"
    using addToConversationHistory_returns_iff [of p hs u m] by blast
  with addToConversationHistory_returns [where p = p and hs = hs and u = u and m = m] assms
  show ?thesis by simp
qed

lemma historyAfter_add:
  assumes "addToConversationHistory p hs u m = Inr hs'"
  shows "historyAfter hs' u =
     (let pushed = historyBefore p hs u @ [m]
      in if length pushed > MAX_HISTORY_LENGTH + 1
         then hd pushed # drop (length pushed - MAX_HISTORY_LENGTH) pushed
         else pushed)"
  unfolding addToConversationHistory_result [OF assms]
  by (simp add: historyAfter_def Let_def)

lemma others_unchanged_add:
  assumes "addToConversationHistory p hs u m = Inr hs'" and "v \<noteq> u"
  shows "hs' v = hs v"
  unfolding addToConversationHistory_result [OF assms(1)]
  using assms(2) by (simp add: Let_def)

lemma stored_after_add:
  assumes "addToConversationHistory p hs u m = Inr hs'"
  shows "hs' u = Some (historyAfter hs' u)"
  unfolding addToConversationHistory_result [OF assms]
  by (simp add: historyAfter_def Let_def)

lemma length_historyAfter_add:
  assumes "addToConversationHistory p hs u m = Inr hs'"
  shows "length (historyAfter hs' u) =
     min (length (historyBefore p hs u) + 1) (MAX_HISTORY_LENGTH + 1)"
  by (simp add: historyAfter_add [OF assms] Let_def MAX_HISTORY_LENGTH_def)

lemma hd_historyAfter_add:
  assumes "addToConversationHistory p hs u m = Inr hs'" and "historyBefore p hs u \<noteq> []"
  shows "hd (historyAfter hs' u) = hd (historyBefore p hs u)"
  using assms(2) by (simp add: historyAfter_add [OF assms(1)] Let_def)

lemma historyBefore_add:
  assumes "addToConversationHistory p hs u m = Inr hs'"
  shows "historyBefore p hs' u = historyAfter hs' u"
  by (simp add: historyBefore_def stored_after_add [OF assms])

lemma historyAfter_nonempty_add:
  assumes "addToConversationHistory p hs u m = Inr hs'"
  shows "historyAfter hs' u \<noteq> []"
  by (simp add: historyAfter_add [OF assms] Let_def)

lemma tl_historyAfter_add_suffix:
  assumes r: "addToConversationHistory p hs u m = Inr hs'"
  shows "suffix (tl (historyAfter hs' u)) (tl (historyBefore p hs u @ [m]))"
proof (cases "length (historyBefore p hs u @ [m]) > MAX_HISTORY_LENGTH + 1")
  case True
  let ?pushed = "historyBefore p hs u @ [m]"
  let ?k = "length ?pushed - MAX_HISTORY_LENGTH"
  from True have k: "?k = Suc (?k - 1)"
    by (simp add: MAX_HISTORY_LENGTH_def)
  have "drop ?k ?pushed = drop (?k - 1) (tl ?pushed)"
    by (subst k) (simp only: drop_Suc)
  then have "suffix (drop ?k ?pushed) (tl ?pushed)"
    by (simp only: suffix_drop)
  with True show ?thesis
    by (simp add: historyAfter_add [OF r] Let_def)
next
  case False
  then show ?thesis
    by (simp add: historyAfter_add [OF r] Let_def)
qed

lemma addAll_returns_iff:
  "(\<exists>hs'. addAllToConversationHistory p hs u ms = Inr hs') \<longleftrightarrow>
   ms = [] \<or> hs u \<noteq> None \<or> u \<notin> set objectPrototypeKeys"
proof (induction ms arbitrary: hs)
  case Nil
  show ?case by simp
next
  case (Cons m ms)
  show ?case
  proof (cases "hs u \<noteq> None \<or> u \<notin> set objectPrototypeKeys")
    case True
    then obtain hs1 where r: "addToConversationHistory p hs u m = Inr hs1"
      using addToConversationHistory_returns_iff [of p hs u m] by blast
    have "hs1 u \<noteq> None" by (simp add: stored_after_add [OF r])
    with Cons.IH [of hs1] r True show ?thesis by simp
  next
    case False
    then show ?thesis by (simp add: addToConversationHistory_throws)
  qed
qed

lemma length_historyBefore_addAll:
  "addAllToConversationHistory p hs u ms = Inr hs' \<Longrightarrow>
   length (historyBefore p hs' u) =
     (if ms = [] then length (historyBefore p hs u)
      else min (length (historyBefore p hs u) + length ms) (MAX_HISTORY_LENGTH + 1))"
proof (induction ms arbitrary: hs)
  case Nil
  then show ?case by simp
next
  case (Cons m ms)
  from Cons.prems obtain hs1 where r: "addToConversationHistory p hs u m = Inr hs1"
    and rest: "addAllToConversationHistory p hs1 u ms = Inr hs'"
    by (auto split: sum.splits)
  have one: "length (historyBefore p hs1 u) =
      min (length (historyBefore p hs u) + 1) (MAX_HISTORY_LENGTH + 1)"
    by (simp only: historyBefore_add [OF r] length_historyAfter_add [OF r])
  show ?case
    unfolding Cons.IH [OF rest] one
    by (simp add: min_def)
qed

lemma hd_historyBefore_addAll:
  "addAllToConversationHistory p hs u ms = Inr hs' \<Longrightarrow> historyBefore p hs u \<noteq> [] \<Longrightarrow>
   historyBefore p hs' u \<noteq> [] \<and> hd (historyBefore p hs' u) = hd (historyBefore p hs u)"
proof (induction ms arbitrary: hs)
  case Nil
  then show ?case by simp
next
  case (Cons m ms)
  from Cons.prems(1) obtain hs1 where r: "addToConversationHistory p hs u m = Inr hs1"
    and rest: "addAllToConversationHistory p hs1 u ms = Inr hs'"
    by (auto split: sum.splits)
  have ne: "historyBefore p hs1 u \<noteq> []"
    by (simp add: historyBefore_add [OF r] historyAfter_nonempty_add [OF r])
  have "hd (historyBefore p hs1 u) = hd (historyBefore p hs u)"
    by (simp add: historyBefore_add [OF r] hd_historyAfter_add [OF r Cons.prems(2)])
  with Cons.IH [OF rest ne] show ?case by simp
qed

lemma stored_after_addAll:
  "addAllToConversationHistory p hs u ms = Inr hs' \<Longrightarrow> ms \<noteq> [] \<Longrightarrow>
   historyBefore p hs' u = historyAfter hs' u"
proof (induction ms arbitrary: hs)
  case Nil
  then show ?case by simp
next
  case (Cons m ms)
  from Cons.prems(1) obtain hs1 where r: "addToConversationHistory p hs u m = Inr hs1"
    and rest: "addAllToConversationHistory p hs1 u ms = Inr hs'"
    by (auto split: sum.splits)
  show ?case
  proof (cases "ms = []")
    case True
    with rest have "hs' = hs1" by simp
    then show ?thesis by (simp add: historyBefore_add [OF r])
  next
    case False
    from Cons.IH [OF rest False] show ?thesis .
  qed
qed

lemma pinned_invariant_add:
  assumes inv: "\<And>v h. hs v = Some h \<Longrightarrow> h \<noteq> [] \<and> role (hd h) = System"
    and r: "addToConversationHistory p hs u m = Inr hs'"
    and look: "hs' v = Some h"
  shows "h \<noteq> [] \<and> role (hd h) = System"
proof (cases "v = u")
  case True
  have before: "historyBefore p hs u \<noteq> [] \<and> role (hd (historyBefore p hs u)) = System"
    using inv [of u] by (cases "hs u") (simp_all add: historyBefore_def systemMessage_def)
  from look True have h: "h = historyAfter hs' u"
    by (simp add: historyAfter_def)
  have "h \<noteq> []"
    unfolding h by (rule historyAfter_nonempty_add [OF r])
  moreover have "hd h = hd (historyBefore p hs u)"
    unfolding h using before by (simp add: hd_historyAfter_add [OF r])
  ultimately show ?thesis using before by simp
next
  case False
  with look others_unchanged_add [OF r False] have "hs v = Some h" by simp
  then show ?thesis by (rule inv)
qed

lemma no_log_under_prototype_key:
  assumes r: "addToConversationHistory p hs u m = Inr hs'"
  shows "(\<forall>k \<in> set objectPrototypeKeys. hs k = None) \<longrightarrow>
         (\<forall>k \<in> set objectPrototypeKeys. hs' k = None)"
proof (intro impI ballI)
  fix k
  assume free: "\<forall>k \<in> set objectPrototypeKeys. hs k = None" and k: "k \<in> set objectPrototypeKeys"
  from r have "hs u \<noteq> None \<or> u \<notin> set objectPrototypeKeys"
    using addToConversationHistory_returns_iff [of p hs u m] by blast
  with free have "u \<notin> set objectPrototypeKeys" by auto
  with k have "k \<noteq> u" by auto
  with others_unchanged_add [OF r, of k] free k show "hs' k = None" by simp
qed

text \<open>
  C4. A call of \<open>addToConversationHistory\<close> returns, and so appends, for every user
  whose name is not that of a member of \<open>Object.prototype\<close> (for such a name it throws
  and the store stays as it was, so appends store no log under it). After an append
  the log of the user has \<open>min (n + 1) (MAX_HISTORY_LENGTH + 1)\<close> entries, where \<open>n\<close> is
  its length before, so at most \<open>MAX_HISTORY_LENGTH\<close> plus the one pinned entry (the code
  pins element 0 only: \<open>P = 1\<close>). Element 0 is unchanged, it is the system message for a
  log the call creates, and every stored log keeps a system message at index 0. What
  remains after element 0 is a suffix of the old entries followed by the new message:
  eviction removes the oldest entries after element 0 and keeps the order of the rest;
  below the bound nothing is removed. The logs of the other users are not touched.
  After \<open>MAX_HISTORY_LENGTH + 5\<close> appends the length is \<open>MAX_HISTORY_LENGTH + 1\<close>, whatever
  the log held before (a new session, or the system message and the greeting stored by
  \<open>getConversationHistory\<close>), and element 0 is the one from before: the system message
  for a new session.
\<close>

theorem conversation_history_window:
  "((\<exists>appended. addToConversationHistory p hs u m = Inr appended) \<longleftrightarrow>
      hs u \<noteq> None \<or> u \<notin> set objectPrototypeKeys)
   \<and> (addToConversationHistory p hs u m = Inr hs' \<longrightarrow>
        length (historyAfter hs' u) = min (length (historyBefore p hs u) + 1) (MAX_HISTORY_LENGTH + 1)
        \<and> length (historyAfter hs' u) \<le> MAX_HISTORY_LENGTH + 1
        \<and> hs' u = Some (historyAfter hs' u)
        \<and> (historyBefore p hs u \<noteq> [] \<longrightarrow>
             hd (historyAfter hs' u) = hd (historyBefore p hs u))
        \<and> (hs u = None \<longrightarrow> hd (historyAfter hs' u) = systemMessage p)
        \<and> ((\<forall>v h. hs v = Some h \<longrightarrow> h \<noteq> [] \<and> role (hd h) = System) \<longrightarrow>
             (\<forall>v h. hs' v = Some h \<longrightarrow> h \<noteq> [] \<and> role (hd h) = System))
        \<and> suffix (tl (historyAfter hs' u)) (tl (historyBefore p hs u @ [m]))
        \<and> (length (historyBefore p hs u) \<le> MAX_HISTORY_LENGTH \<longrightarrow>
             historyAfter hs' u = historyBefore p hs u @ [m])
        \<and> (\<forall>v. v \<noteq> u \<longrightarrow> hs' v = hs v)
        \<and> ((\<forall>k \<in> set objectPrototypeKeys. hs k = None) \<longrightarrow>
             (\<forall>k \<in> set objectPrototypeKeys. hs' k = None)))
   \<and> ((\<exists>appended. addAllToConversationHistory p hs u ms = Inr appended) \<longleftrightarrow>
        ms = [] \<or> hs u \<noteq> None \<or> u \<notin> set objectPrototypeKeys)
   \<and> (length ms = MAX_HISTORY_LENGTH + 5 \<and> addAllToConversationHistory p hs u ms = Inr hs'' \<longrightarrow>
        length (historyAfter hs'' u) = MAX_HISTORY_LENGTH + 1
        \<and> (historyBefore p hs u \<noteq> [] \<longrightarrow>
             hd (historyAfter hs'' u) = hd (historyBefore p hs u))
        \<and> (hs u = None \<longrightarrow> hd (historyAfter hs'' u) = systemMessage p))"
proof -
  have returns: "(\<exists>appended. addToConversationHistory p hs u m = Inr appended) \<longleftrightarrow>
      hs u \<noteq> None \<or> u \<notin> set objectPrototypeKeys"
    by (rule addToConversationHistory_returns_iff)
  have one: "addToConversationHistory p hs u m = Inr hs' \<longrightarrow>
        length (historyAfter hs' u) = min (length (historyBefore p hs u) + 1) (MAX_HISTORY_LENGTH + 1)
        \<and> length (historyAfter hs' u) \<le> MAX_HISTORY_LENGTH + 1
        \<and> hs' u = Some (historyAfter hs' u)
        \<and> (historyBefore p hs u \<noteq> [] \<longrightarrow>
             hd (historyAfter hs' u) = hd (historyBefore p hs u))
        \<and> (hs u = None \<longrightarrow> hd (historyAfter hs' u) = systemMessage p)
        \<and> ((\<forall>v h. hs v = Some h \<longrightarrow> h \<noteq> [] \<and> role (hd h) = System) \<longrightarrow>
             (\<forall>v h. hs' v = Some h \<longrightarrow> h \<noteq> [] \<and> role (hd h) = System))
        \<and> suffix (tl (historyAfter hs' u)) (tl (historyBefore p hs u @ [m]))
        \<and> (length (historyBefore p hs u) \<le> MAX_HISTORY_LENGTH \<longrightarrow>
             historyAfter hs' u = historyBefore p hs u @ [m])
        \<and> (\<forall>v. v \<noteq> u \<longrightarrow> hs' v = hs v)
        \<and> ((\<forall>k \<in> set objectPrototypeKeys. hs k = None) \<longrightarrow>
             (\<forall>k \<in> set objectPrototypeKeys. hs' k = None))"
  proof
    assume r: "addToConversationHistory p hs u m = Inr hs'"
    have len: "length (historyAfter hs' u) =
        min (length (historyBefore p hs u) + 1) (MAX_HISTORY_LENGTH + 1)"
      by (rule length_historyAfter_add [OF r])
    have bound: "length (historyAfter hs' u) \<le> MAX_HISTORY_LENGTH + 1"
      unfolding len by simp
    have stored: "hs' u = Some (historyAfter hs' u)"
      by (rule stored_after_add [OF r])
    have keep: "historyBefore p hs u \<noteq> [] \<longrightarrow>
        hd (historyAfter hs' u) = hd (historyBefore p hs u)"
      by (simp add: hd_historyAfter_add [OF r])
    have fresh: "hs u = None \<longrightarrow> hd (historyAfter hs' u) = systemMessage p"
      by (simp add: hd_historyAfter_add [OF r] historyBefore_def)
    have inv: "(\<forall>v h. hs v = Some h \<longrightarrow> h \<noteq> [] \<and> role (hd h) = System) \<longrightarrow>
        (\<forall>v h. hs' v = Some h \<longrightarrow> h \<noteq> [] \<and> role (hd h) = System)"
      using pinned_invariant_add [of hs p u m hs'] r by blast
    have suf: "suffix (tl (historyAfter hs' u)) (tl (historyBefore p hs u @ [m]))"
      by (rule tl_historyAfter_add_suffix [OF r])
    have below: "length (historyBefore p hs u) \<le> MAX_HISTORY_LENGTH \<longrightarrow>
        historyAfter hs' u = historyBefore p hs u @ [m]"
      by (simp add: historyAfter_add [OF r] Let_def)
    have others: "\<forall>v. v \<noteq> u \<longrightarrow> hs' v = hs v"
      using others_unchanged_add [OF r] by blast
    have names: "(\<forall>k \<in> set objectPrototypeKeys. hs k = None) \<longrightarrow>
        (\<forall>k \<in> set objectPrototypeKeys. hs' k = None)"
      by (rule no_log_under_prototype_key [OF r])
    from len bound stored keep fresh inv suf below others names
    show "length (historyAfter hs' u) = min (length (historyBefore p hs u) + 1) (MAX_HISTORY_LENGTH + 1)
        \<and> length (historyAfter hs' u) \<le> MAX_HISTORY_LENGTH + 1
        \<and> hs' u = Some (historyAfter hs' u)
        \<and> (historyBefore p hs u \<noteq> [] \<longrightarrow>
             hd (historyAfter hs' u) = hd (historyBefore p hs u))
        \<and> (hs u = None \<longrightarrow> hd (historyAfter hs' u) = systemMessage p)
        \<and> ((\<forall>v h. hs v = Some h \<longrightarrow> h \<noteq> [] \<and> role (hd h) = System) \<longrightarrow>
             (\<forall>v h. hs' v = Some h \<longrightarrow> h \<noteq> [] \<and> role (hd h) = System))
        \<and> suffix (tl (historyAfter hs' u)) (tl (historyBefore p hs u @ [m]))
        \<and> (length (historyBefore p hs u) \<le> MAX_HISTORY_LENGTH \<longrightarrow>
             historyAfter hs' u = historyBefore p hs u @ [m])
        \<and> (\<forall>v. v \<noteq> u \<longrightarrow> hs' v = hs v)
        \<and> ((\<forall>k \<in> set objectPrototypeKeys. hs k = None) \<longrightarrow>
             (\<forall>k \<in> set objectPrototypeKeys. hs' k = None))"
      by blast
  qed
  have all_returns: "(\<exists>appended. addAllToConversationHistory p hs u ms = Inr appended) \<longleftrightarrow>
      ms = [] \<or> hs u \<noteq> None \<or> u \<notin> set objectPrototypeKeys"
    by (rule addAll_returns_iff)
  have many: "length ms = MAX_HISTORY_LENGTH + 5 \<and> addAllToConversationHistory p hs u ms = Inr hs'' \<longrightarrow>
      length (historyAfter hs'' u) = MAX_HISTORY_LENGTH + 1
      \<and> (historyBefore p hs u \<noteq> [] \<longrightarrow>
           hd (historyAfter hs'' u) = hd (historyBefore p hs u))
      \<and> (hs u = None \<longrightarrow> hd (historyAfter hs'' u) = systemMessage p)"
  proof
    assume a: "length ms = MAX_HISTORY_LENGTH + 5 \<and> addAllToConversationHistory p hs u ms = Inr hs''"
    then have ne: "ms \<noteq> []" and r: "addAllToConversationHistory p hs u ms = Inr hs''"
      by auto
    note after = stored_after_addAll [OF r ne, symmetric]
    have l: "length (historyAfter hs'' u) = MAX_HISTORY_LENGTH + 1"
      unfolding after using a ne by (simp add: length_historyBefore_addAll [OF r])
    have h: "historyBefore p hs u \<noteq> [] \<longrightarrow>
        hd (historyAfter hs'' u) = hd (historyBefore p hs u)"
      unfolding after using hd_historyBefore_addAll [OF r] by blast
    have f: "hs u = None \<longrightarrow> hd (historyAfter hs'' u) = systemMessage p"
    proof
      assume "hs u = None"
      then have hb: "historyBefore p hs u = [systemMessage p]"
        by (simp add: historyBefore_def)
      with h show "hd (historyAfter hs'' u) = systemMessage p"
        by simp
    qed
    from l h f show "length (historyAfter hs'' u) = MAX_HISTORY_LENGTH + 1
      \<and> (historyBefore p hs u \<noteq> [] \<longrightarrow>
           hd (historyAfter hs'' u) = hd (historyBefore p hs u))
      \<and> (hs u = None \<longrightarrow> hd (historyAfter hs'' u) = systemMessage p)"
      by blast
  qed
  from returns one all_returns many show ?thesis by blast
qed

theorem conversation_history_window_witness:
  "(\<exists>appended.
      addToConversationHistory ''P'' Map.empty ''7'' \<lparr>role = User, content = ''hi'', name = None\<rparr>
        = Inr appended
      \<and> historyAfter appended ''7''
          = [systemMessage ''P'', \<lparr>role = User, content = ''hi'', name = None\<rparr>])
   \<and> (\<exists>appended.
      addAllToConversationHistory ''P'' Map.empty ''7''
        (replicate 15 \<lparr>role = User, content = ''hi'', name = None\<rparr>) = Inr appended
      \<and> length (historyAfter appended ''7'') = 11
      \<and> hd (historyAfter appended ''7'') = systemMessage ''P'')
   \<and> addToConversationHistory ''P'' Map.empty ''constructor''
        \<lparr>role = User, content = ''hi'', name = None\<rparr>
      = Inl ''TypeError: conversationHistories[userId].push is not a function''"
proof -
  let ?m = "\<lparr>role = User, content = ''hi'', name = None\<rparr>"
  have k: "''7'' \<notin> set objectPrototypeKeys"
    by code_simp
  have c: "''constructor'' \<in> set objectPrototypeKeys"
    by code_simp
  note W = conversation_history_window
    [where p = "''P''" and hs = Map.empty and u = "''7''" and m = ?m and ms = "replicate 15 ?m"]
  from W k obtain hs1 where r1: "addToConversationHistory ''P'' Map.empty ''7'' ?m = Inr hs1"
    by blast
  from W k obtain hs2
    where r2: "addAllToConversationHistory ''P'' Map.empty ''7'' (replicate 15 ?m) = Inr hs2"
    by blast
  from W [where hs' = hs1 and hs'' = hs2] r1 r2
  have "historyAfter hs1 ''7'' = [systemMessage ''P'', ?m]
      \<and> length (historyAfter hs2 ''7'') = 11 \<and> hd (historyAfter hs2 ''7'') = systemMessage ''P''"
    by (simp add: historyBefore_def MAX_HISTORY_LENGTH_def)
  with r1 r2 addToConversationHistory_throws [of Map.empty "''constructor''" "''P''" ?m] c
  show ?thesis by simp
qed

section \<open>Properties of the coupon tool\<close>

lemma clamp_Finite:
  "mathMin (mathMax (Finite r) (Finite 10)) (Finite 20) = Finite (min (max r 10) 20)"
  by simp





section \<open>Properties of the fuzzy matcher\<close>

lemma includesStr_sublist: "includesStr t p \<longleftrightarrow> sublist p t"
  by (induction t) (auto simp add: sublist_Cons_right)

lemma split_space_nonempty: "split_space t \<noteq> []"
  by (induction t) (auto split: list.splits)

lemma join_space_Cons_Cons: "join_space ((c # w) # ws) = c # join_space (w # ws)"
  by (cases ws) simp_all

lemma join_space_Nil_Cons: "ws \<noteq> [] \<Longrightarrow> join_space ([] # ws) = CHR '' '' # join_space ws"
  by (cases ws) simp_all

lemma join_split_space: "join_space (split_space t) = t"
proof (induction t)
  case Nil
  show ?case by simp
next
  case (Cons c cs)
  show ?case
  proof (cases "c = CHR '' ''")
    case True
    then show ?thesis
      using Cons.IH by (simp add: join_space_Nil_Cons split_space_nonempty)
  next
    case False
    obtain w ws where sp: "split_space cs = w # ws"
      using split_space_nonempty [of cs] by (cases "split_space cs") auto
    from False sp Cons.IH show ?thesis
      by (simp add: join_space_Cons_Cons)
  qed
qed

lemma split_space_no_space: "w \<in> set (split_space t) \<Longrightarrow> CHR '' '' \<notin> set w"
  by (induction t arbitrary: w) (auto split: list.splits if_splits)

lemma length_split_space: "length (split_space t) = Suc (count_list t (CHR '' ''))"
  by (induction t) (auto split: list.splits)

lemma overlap_ratio_range:
  fixes k n :: nat
  shows "k \<le> n \<Longrightarrow> 0 < n \<Longrightarrow>
    0 \<le> (of_nat k / of_nat n :: rat) \<and> (of_nat k / of_nat n :: rat) \<le> 1"
  by simp

lemma calculateNameMatchScore_range:
  "0 \<le> calculateNameMatchScore s a \<and> calculateNameMatchScore s a \<le> 1"
proof -
  let ?sw = "split_space (toLowerCase s)" and ?aw = "split_space (toLowerCase a)"
  have "length (filter (\<lambda>word. word \<in> set ?aw) ?sw) \<le> max (length ?sw) (length ?aw)"
    by (rule order_trans [OF length_filter_le]) simp
  moreover have "0 < max (length ?sw) (length ?aw)"
    using split_space_nonempty [of "toLowerCase s"] by (simp add: less_max_iff_disj)
  ultimately have "0 \<le> (of_nat (length (filter (\<lambda>word. word \<in> set ?aw) ?sw)) /
        of_nat (max (length ?sw) (length ?aw)) :: rat)
      \<and> (of_nat (length (filter (\<lambda>word. word \<in> set ?aw) ?sw)) /
        of_nat (max (length ?sw) (length ?aw)) :: rat) \<le> 1"
    by (rule overlap_ratio_range)
  then show ?thesis
    by (simp add: calculateNameMatchScore_def Let_def)
qed

text \<open>
  C5, as stated, fails: the code separates tokens at the space character only, so two
  names whose words are separated by a tab share no token for the code (score 0),
  while their whitespace-separated tokens coincide (reference score 1).
\<close>

theorem calculateNameMatchScore_tab_counterexample:
  "calculateNameMatchScore (''apple'' @ [CHR 0x09] @ ''juice'') (''juice'' @ [CHR 0x09] @ ''apple'') = 0
   \<and> matchScore_spec (''apple'' @ [CHR 0x09] @ ''juice'') (''juice'' @ [CHR 0x09] @ ''apple'') = 1"
  by code_simp

text \<open>
  C5, amended. In strict precedence order the score is 1 for equal case-folded names,
  0.9 when the candidate contains the search term, 0.8 when the search term contains
  the candidate, and otherwise the number of search tokens that occur among the
  candidate tokens divided by the larger of the two token counts. Tokens are the pieces
  between single space characters: joining them with a space gives the case-folded name
  back, no token contains a space, and there is one more token than there are spaces.
  Containment is occurrence as a contiguous run. The score lies in \<open>[0, 1]\<close>, and the
  score of a name against itself is 1.
\<close>

theorem calculateNameMatchScore_space_tokens:
  "calculateNameMatchScore s a =
     (if toLowerCase s = toLowerCase a then 1
      else if includesStr (toLowerCase a) (toLowerCase s) then 9 / 10
      else if includesStr (toLowerCase s) (toLowerCase a) then 8 / 10
      else of_nat (length (filter (\<lambda>w. w \<in> set (split_space (toLowerCase a)))
                                  (split_space (toLowerCase s)))) /
           of_nat (max (length (split_space (toLowerCase s)))
                       (length (split_space (toLowerCase a)))))
   \<and> 0 \<le> calculateNameMatchScore s a \<and> calculateNameMatchScore s a \<le> 1
   \<and> calculateNameMatchScore x x = 1
   \<and> (includesStr t p \<longleftrightarrow> (\<exists>before after. t = before @ p @ after))
   \<and> join_space (split_space t) = t
   \<and> (\<forall>w \<in> set (split_space t). CHR '' '' \<notin> set w)
   \<and> length (split_space t) = Suc (count_list t (CHR '' ''))"
proof -
  have "includesStr t p \<longleftrightarrow> (\<exists>before after. t = before @ p @ after)"
    by (simp add: includesStr_sublist sublist_def)
  moreover have "calculateNameMatchScore x x = 1"
    by (simp add: calculateNameMatchScore_def)
  moreover have "\<forall>w \<in> set (split_space t). CHR '' '' \<notin> set w"
    using split_space_no_space by blast
  moreover have "calculateNameMatchScore s a =
     (if toLowerCase s = toLowerCase a then 1
      else if includesStr (toLowerCase a) (toLowerCase s) then 9 / 10
      else if includesStr (toLowerCase s) (toLowerCase a) then 8 / 10
      else of_nat (length (filter (\<lambda>w. w \<in> set (split_space (toLowerCase a)))
                                  (split_space (toLowerCase s)))) /
           of_nat (max (length (split_space (toLowerCase s)))
                       (length (split_space (toLowerCase a)))))"
    by (simp add: calculateNameMatchScore_def Let_def)
  ultimately show ?thesis
    using calculateNameMatchScore_range [of s a] join_split_space [of t] length_split_space [of t]
    by blast
qed

theorem calculateNameMatchScore_space_tokens_witness:
  "calculateNameMatchScore ''red apple juice'' ''Apple Pie'' = 1 / 3
   \<and> calculateNameMatchScore ''Apple Juice'' ''Apple Juice'' = 1
   \<and> split_space ''red apple juice'' = [''red'', ''apple'', ''juice'']
   \<and> CHR '' '' \<notin> set ''apple''
   \<and> length (split_space ''red apple juice'') = 3"
proof -
  have sp: "split_space ''red apple juice'' = [''red'', ''apple'', ''juice'']"
    by code_simp
  have v: "calculateNameMatchScore ''red apple juice'' ''Apple Pie'' = 1 / 3"
    by code_simp
  have m: "''apple'' \<in> set (split_space ''red apple juice'')"
    by (simp add: sp)
  from calculateNameMatchScore_space_tokens
    [of "''red apple juice''" "''Apple Pie''" "''Apple Juice''" "''red apple juice''" "''apple''"]
  have "calculateNameMatchScore ''Apple Juice'' ''Apple Juice'' = 1
    \<and> (\<forall>w \<in> set (split_space ''red apple juice''). CHR '' '' \<notin> set w)
    \<and> length (split_space ''red apple juice'') = Suc (count_list ''red apple juice'' (CHR '' ''))"
    by blast
  with sp v m show ?thesis by simp
qed

section \<open>Properties of the SQL guardrail\<close>

subsection \<open>What the patterns match\<close>

lemma matchAtoms_lit:
  "matchAtoms (lit k @ r) e prev s \<longleftrightarrow>
     (\<exists>u v. s = u @ v \<and> map canonicalize u = map canonicalize k
        \<and> matchAtoms r e (if u = [] then prev else Some (last u)) v)"
proof (induction k arbitrary: prev s)
  case Nil
  show ?case by (simp add: lit_def)
next
  case (Cons c k)
  show ?case
  proof (cases s)
    case Nil
    then show ?thesis by (simp add: lit_def)
  next
    case (Cons x xs)
    have IH: "matchAtoms (lit k @ r) e (Some x) xs \<longleftrightarrow>
       (\<exists>u v. xs = u @ v \<and> map canonicalize u = map canonicalize k
          \<and> matchAtoms r e (if u = [] then Some x else Some (last u)) v)"
      using Cons.IH [of "Some x" xs] .
    show ?thesis
    proof
      assume "matchAtoms (lit (c # k) @ r) e prev s"
      with Cons have cx: "canonicalize x = canonicalize c"
        and m: "matchAtoms (lit k @ r) e (Some x) xs"
        by (simp_all add: lit_def split: if_splits)
      from m IH obtain u v where uv: "xs = u @ v" "map canonicalize u = map canonicalize k"
        "matchAtoms r e (if u = [] then Some x else Some (last u)) v" by blast
      have "s = (x # u) @ v" using Cons uv(1) by simp
      moreover have "map canonicalize (x # u) = map canonicalize (c # k)" using cx uv(2) by simp
      moreover have "matchAtoms r e (if x # u = [] then prev else Some (last (x # u))) v"
        using uv(3) by (cases "u = []") simp_all
      ultimately show "\<exists>u v. s = u @ v \<and> map canonicalize u = map canonicalize (c # k)
        \<and> matchAtoms r e (if u = [] then prev else Some (last u)) v" by blast
    next
      assume "\<exists>u v. s = u @ v \<and> map canonicalize u = map canonicalize (c # k)
        \<and> matchAtoms r e (if u = [] then prev else Some (last u)) v"
      then obtain u v where uv: "s = u @ v" "map canonicalize u = map canonicalize (c # k)"
        "matchAtoms r e (if u = [] then prev else Some (last u)) v" by blast
      from uv(2) obtain y u' where u: "u = y # u'" "canonicalize y = canonicalize c"
        "map canonicalize u' = map canonicalize k" by (cases u) auto
      from uv(1) u(1) Cons have xy: "x = y" "xs = u' @ v" by simp_all
      have "matchAtoms r e (if u' = [] then Some x else Some (last u')) v"
        using uv(3) u(1) xy(1) by (cases "u' = []") simp_all
      with IH xy(2) u(3) have "matchAtoms (lit k @ r) e (Some x) xs" by blast
      with Cons u(2) xy(1) show "matchAtoms (lit (c # k) @ r) e prev s"
        by (simp add: lit_def)
    qed
  qed
qed

lemma matchAtoms_star_open: "matchAtoms [Star c] False prev s"
  by (cases s) simp_all

lemma matchAtoms_plus_space:
  "matchAtoms [Plus Space] False prev s \<longleftrightarrow> (\<exists>x xs. s = x # xs \<and> isWhiteSpace x)"
  by (cases s) (simp_all add: matchAtoms_star_open)

lemma searchFrom_iff:
  "searchFrom as e prev s \<longleftrightarrow>
     (\<exists>pre post. s = pre @ post
        \<and> matchAtoms as e (if pre = [] then prev else Some (last pre)) post)"
proof (induction s arbitrary: prev)
  case Nil
  show ?case by simp
next
  case (Cons x xs)
  show ?case
  proof
    assume a: "searchFrom as e prev (x # xs)"
    show "\<exists>pre post. x # xs = pre @ post
        \<and> matchAtoms as e (if pre = [] then prev else Some (last pre)) post"
    proof (cases "matchAtoms as e prev (x # xs)")
      case True
      then have "x # xs = [] @ (x # xs) \<and> matchAtoms as e (if [] = ([]::string) then prev else Some (last [])) (x # xs)"
        by simp
      then show ?thesis by blast
    next
      case False
      with a have "searchFrom as e (Some x) xs" by simp
      with Cons.IH [of "Some x"] obtain pre post where pp: "xs = pre @ post"
        "matchAtoms as e (if pre = [] then Some x else Some (last pre)) post" by blast
      have "x # xs = (x # pre) @ post" using pp(1) by simp
      moreover have "matchAtoms as e (if x # pre = [] then prev else Some (last (x # pre))) post"
        using pp(2) by (cases "pre = []") simp_all
      ultimately show ?thesis by blast
    qed
  next
    assume "\<exists>pre post. x # xs = pre @ post
        \<and> matchAtoms as e (if pre = [] then prev else Some (last pre)) post"
    then obtain pre post where pp: "x # xs = pre @ post"
      "matchAtoms as e (if pre = [] then prev else Some (last pre)) post" by blast
    show "searchFrom as e prev (x # xs)"
    proof (cases pre)
      case Nil
      with pp have "matchAtoms as e prev (x # xs)" by simp
      then show ?thesis by simp
    next
      case (Cons y pre')
      with pp(1) have xy: "x = y" "xs = pre' @ post" by simp_all
      have "matchAtoms as e (if pre' = [] then Some x else Some (last pre')) post"
        using pp(2) Cons xy(1) by (cases "pre' = []") simp_all
      with Cons.IH [of "Some x"] xy(2) have "searchFrom as e (Some x) xs" by blast
      then show ?thesis by simp
    qed
  qed
qed

lemma keyword_pattern_iff:
  "regex_test (Regex False (lit kw @ [Plus Space]) False) q \<longleftrightarrow>
     (\<exists>pre k sp post. q = pre @ k @ sp # post
        \<and> map canonicalize k = map canonicalize kw \<and> isWhiteSpace sp)"
proof
  assume "regex_test (Regex False (lit kw @ [Plus Space]) False) q"
  then obtain pre post where pp: "q = pre @ post"
    "matchAtoms (lit kw @ [Plus Space]) False (if pre = [] then None else Some (last pre)) post"
    by (auto simp add: regex_test_def searchFrom_iff)
  from pp(2) obtain u v where uv: "post = u @ v" "map canonicalize u = map canonicalize kw"
    "matchAtoms [Plus Space] False
       (if u = [] then (if pre = [] then None else Some (last pre)) else Some (last u)) v"
    unfolding matchAtoms_lit by blast
  from uv(3) obtain x xs where x: "v = x # xs" "isWhiteSpace x"
    unfolding matchAtoms_plus_space by blast
  from pp(1) uv(1,2) x show "\<exists>pre k sp post. q = pre @ k @ sp # post
        \<and> map canonicalize k = map canonicalize kw \<and> isWhiteSpace sp" by blast
next
  assume "\<exists>pre k sp post. q = pre @ k @ sp # post
        \<and> map canonicalize k = map canonicalize kw \<and> isWhiteSpace sp"
  then obtain pre k sp post where a: "q = pre @ k @ sp # post"
    "map canonicalize k = map canonicalize kw" "isWhiteSpace sp" by blast
  have "matchAtoms [Plus Space] False
       (if k = [] then (if pre = [] then None else Some (last pre)) else Some (last k)) (sp # post)"
    using a(3) unfolding matchAtoms_plus_space by blast
  with a(2) have "matchAtoms (lit kw @ [Plus Space]) False
      (if pre = [] then None else Some (last pre)) (k @ sp # post)"
    unfolding matchAtoms_lit by blast
  with a(1) have "searchFrom (lit kw @ [Plus Space]) False None q"
    unfolding searchFrom_iff by blast
  then show "regex_test (Regex False (lit kw @ [Plus Space]) False) q"
    by (simp add: regex_test_def)
qed

lemma keyword_denied:
  assumes kw: "kw \<in> set [''DROP'', ''ALTER'', ''CREATE'', ''TRUNCATE'', ''EXEC'', ''UNION'']"
    and k: "map canonicalize k = map canonicalize kw" and sp: "isWhiteSpace sp"
  shows "matchesDisallowedPattern (pre @ k @ sp # post)"
proof -
  have "regex_test (Regex False (lit kw @ [Plus Space]) False) (pre @ k @ sp # post)"
    unfolding keyword_pattern_iff using k sp by blast
  moreover have "Regex False (lit kw @ [Plus Space]) False \<in> set DISALLOWED_SQL_PATTERNS"
    using kw by (auto simp add: DISALLOWED_SQL_PATTERNS_def)
  ultimately show ?thesis
    unfolding matchesDisallowedPattern_def list_ex_iff by blast
qed

lemma matchAtoms_Star:
  "matchAtoms (Star c # r) e prev s \<longleftrightarrow>
     (\<exists>u v. s = u @ v \<and> (\<forall>x \<in> set u. inClass c x)
        \<and> matchAtoms r e (if u = [] then prev else Some (last u)) v)"
proof (induction s arbitrary: prev)
  case Nil
  show ?case by simp
next
  case (Cons x xs)
  show ?case
  proof
    assume a: "matchAtoms (Star c # r) e prev (x # xs)"
    show "\<exists>u v. x # xs = u @ v \<and> (\<forall>y \<in> set u. inClass c y)
        \<and> matchAtoms r e (if u = [] then prev else Some (last u)) v"
    proof (cases "matchAtoms r e prev (x # xs)")
      case True
      then have "x # xs = [] @ (x # xs) \<and> (\<forall>y \<in> set ([]::string). inClass c y)
        \<and> matchAtoms r e (if [] = ([]::string) then prev else Some (last [])) (x # xs)"
        by simp
      then show ?thesis by blast
    next
      case False
      with a have cx: "inClass c x" and m: "matchAtoms (Star c # r) e (Some x) xs"
        by (simp_all split: if_splits)
      from m Cons.IH [of "Some x"] obtain u v where uv: "xs = u @ v" "\<forall>y \<in> set u. inClass c y"
        "matchAtoms r e (if u = [] then Some x else Some (last u)) v" by blast
      have "x # xs = (x # u) @ v" using uv(1) by simp
      moreover have "\<forall>y \<in> set (x # u). inClass c y" using cx uv(2) by simp
      moreover have "matchAtoms r e (if x # u = [] then prev else Some (last (x # u))) v"
        using uv(3) by (cases "u = []") simp_all
      ultimately show ?thesis by blast
    qed
  next
    assume "\<exists>u v. x # xs = u @ v \<and> (\<forall>y \<in> set u. inClass c y)
        \<and> matchAtoms r e (if u = [] then prev else Some (last u)) v"
    then obtain u v where uv: "x # xs = u @ v" "\<forall>y \<in> set u. inClass c y"
      "matchAtoms r e (if u = [] then prev else Some (last u)) v" by blast
    show "matchAtoms (Star c # r) e prev (x # xs)"
    proof (cases u)
      case Nil
      with uv have "matchAtoms r e prev (x # xs)" by simp
      then show ?thesis by simp
    next
      case (Cons y u')
      with uv(1) have xy: "x = y" "xs = u' @ v" by simp_all
      from uv(2) Cons have cy: "inClass c y" and cu: "\<forall>z \<in> set u'. inClass c z" by simp_all
      have "matchAtoms r e (if u' = [] then Some x else Some (last u')) v"
        using uv(3) Cons xy(1) by (cases "u' = []") simp_all
      with Cons.IH [of "Some x"] xy(2) cu have "matchAtoms (Star c # r) e (Some x) xs" by blast
      with cy xy(1) show ?thesis by simp
    qed
  qed
qed

lemma matchAtoms_Plus:
  "matchAtoms (Plus c # r) e prev s \<longleftrightarrow>
     (\<exists>u v. s = u @ v \<and> u \<noteq> [] \<and> (\<forall>x \<in> set u. inClass c x)
        \<and> matchAtoms r e (Some (last u)) v)"
proof (cases s)
  case Nil
  then show ?thesis by simp
next
  case (Cons x xs)
  show ?thesis
  proof
    assume "matchAtoms (Plus c # r) e prev s"
    with Cons have cx: "inClass c x" and m: "matchAtoms (Star c # r) e (Some x) xs"
      by (simp_all split: if_splits)
    from m obtain u v where uv: "xs = u @ v" "\<forall>y \<in> set u. inClass c y"
      "matchAtoms r e (if u = [] then Some x else Some (last u)) v"
      unfolding matchAtoms_Star by blast
    have "s = (x # u) @ v" using Cons uv(1) by simp
    moreover have "\<forall>y \<in> set (x # u). inClass c y" using cx uv(2) by simp
    moreover have "matchAtoms r e (Some (last (x # u))) v"
      using uv(3) by (cases "u = []") simp_all
    ultimately show "\<exists>u v. s = u @ v \<and> u \<noteq> [] \<and> (\<forall>x \<in> set u. inClass c x)
        \<and> matchAtoms r e (Some (last u)) v" by blast
  next
    assume "\<exists>u v. s = u @ v \<and> u \<noteq> [] \<and> (\<forall>x \<in> set u. inClass c x)
        \<and> matchAtoms r e (Some (last u)) v"
    then obtain u v where uv: "s = u @ v" "u \<noteq> []" "\<forall>y \<in> set u. inClass c y"
      "matchAtoms r e (Some (last u)) v" by blast
    from uv(2) obtain y u' where u: "u = y # u'" by (cases u) auto
    from uv(1) u Cons have xy: "x = y" "xs = u' @ v" by simp_all
    from uv(3) u have cy: "inClass c y" and cu: "\<forall>z \<in> set u'. inClass c z" by simp_all
    have "matchAtoms r e (if u' = [] then Some x else Some (last u')) v"
      using uv(4) u xy(1) by (cases "u' = []") simp_all
    with xy(2) cu have "matchAtoms (Star c # r) e (Some x) xs"
      unfolding matchAtoms_Star by blast
    with Cons cy xy(1) show "matchAtoms (Plus c # r) e prev s" by simp
  qed
qed

lemma isWordChar_canonicalize: "isWordChar (canonicalize x) = isWordChar x"
  by (auto simp add: isWordChar_def canonicalize_def Let_def)

lemma word_start:
  assumes "map canonicalize k = map canonicalize kw" and "kw \<noteq> []" and "isWordChar (hd kw)"
  shows "k \<noteq> [] \<and> isWordChar (hd k)"
proof -
  from assms(1,2) obtain x k' where k: "k = x # k'" by (cases k) auto
  from assms(1,2) k have "canonicalize x = canonicalize (hd kw)" by (cases kw) auto
  then have "isWordChar x = isWordChar (hd kw)"
    by (metis isWordChar_canonicalize)
  with assms(3) k show ?thesis by simp
qed

lemma word_end:
  assumes "map canonicalize t = map canonicalize tb" and "tb \<noteq> []" and "isWordChar (last tb)"
  shows "t \<noteq> [] \<and> isWordChar (last t)"
proof -
  from assms(1,2) have ne: "t \<noteq> []" by (cases t) auto
  have "canonicalize (last t) = canonicalize (last tb)"
    using assms(1,2) ne by (metis last_map)
  then have "isWordChar (last t) = isWordChar (last tb)"
    by (metis isWordChar_canonicalize)
  with assms(3) ne show ?thesis by simp
qed

lemma tableReference_matches:
  assumes k: "map canonicalize k = map canonicalize kw"
    and kw: "kw \<noteq> []" "isWordChar (hd kw)"
    and ws: "ws \<noteq> []" "\<forall>x \<in> set ws. isWhiteSpace x"
    and t: "map canonicalize t = map canonicalize tb"
    and tb: "tb \<noteq> []" "isWordChar (last tb)"
    and before: "pre = [] \<or> \<not> isWordChar (last pre)"
    and after: "post = [] \<or> \<not> isWordChar (hd post)"
  shows "regex_test (tableReference kw tb) (pre @ k @ ws @ t @ post)"
proof -
  let ?prev = "if pre = [] then None else Some (last pre)"
  from word_start [OF k kw] have kne: "k \<noteq> []" and kword: "isWordChar (hd k)" by simp_all
  from word_end [OF t tb] have tne: "t \<noteq> []" and tword: "isWordChar (last t)" by simp_all
  have endb: "atWordBoundary (Some (last t)) post"
    using tword after by (cases post) (simp_all add: atWordBoundary_def)
  have m4: "matchAtoms [WordBoundary] False (Some (last t)) post"
    using endb by simp
  have m3: "matchAtoms (lit tb @ [WordBoundary]) False (Some (last ws)) (t @ post)"
    unfolding matchAtoms_lit
    using t m4 tne by (intro exI [of _ t] exI [of _ post]) simp
  have m2: "matchAtoms (Plus Space # lit tb @ [WordBoundary]) False (Some (last k)) (ws @ t @ post)"
    unfolding matchAtoms_Plus
    using ws m3 by (intro exI [of _ ws] exI [of _ "t @ post"]) simp
  have m1: "matchAtoms (lit kw @ Plus Space # lit tb @ [WordBoundary]) False ?prev (k @ ws @ t @ post)"
    unfolding matchAtoms_lit
    using k m2 kne by (intro exI [of _ k] exI [of _ "ws @ t @ post"]) simp
  have startb: "atWordBoundary ?prev (k @ ws @ t @ post)"
    using kword kne before by (cases k) (auto simp add: atWordBoundary_def)
  have m0: "matchAtoms (WordBoundary # lit kw @ Plus Space # lit tb @ [WordBoundary]) False ?prev
      (k @ ws @ t @ post)"
    using startb m1 by simp
  have "searchFrom (WordBoundary # lit kw @ Plus Space # lit tb @ [WordBoundary]) False None
      (pre @ k @ ws @ t @ post)"
    unfolding searchFrom_iff
    using m0 by (intro exI [of _ pre] exI [of _ "k @ ws @ t @ post"]) simp
  then show ?thesis
    by (simp add: regex_test_def tableReference_def)
qed

lemma restricted_table_denied:
  assumes kw: "kw \<in> set [''FROM'', ''JOIN'']"
    and k: "map canonicalize k = map canonicalize kw"
    and ws: "ws \<noteq> []" "\<forall>x \<in> set ws. isWhiteSpace x"
    and t: "map canonicalize t = map canonicalize ''SecurityAnswers''"
    and before: "pre = [] \<or> \<not> isWordChar (last pre)"
    and after: "post = [] \<or> \<not> isWordChar (hd post)"
  shows "referencesRestrictedTable (pre @ k @ ws @ t @ post)"
proof -
  have w1: "isWordChar (last ''SecurityAnswers'')" by code_simp
  have w2: "isWordChar (hd ''FROM'')" "isWordChar (hd ''JOIN'')" by code_simp+
  from kw have "kw = ''FROM'' \<or> kw = ''JOIN''" by simp
  then have "regex_test (tableReference kw ''SecurityAnswers'') (pre @ k @ ws @ t @ post)"
    using tableReference_matches [OF k _ _ ws t _ w1 before after] w2 by auto
  with kw show ?thesis
    by (auto simp add: referencesRestrictedTable_def RESTRICTED_TABLES_def)
qed

lemma benchmark_denied:
  assumes k: "map canonicalize k = map canonicalize ''BENCHMARK''"
    and ws: "\<forall>x \<in> set ws. isWhiteSpace x"
  shows "matchesDisallowedPattern (pre @ k @ ws @ CHR ''('' # post)"
proof -
  let ?prev = "if pre = [] then None else Some (last pre)"
  have m2: "\<And>p. matchAtoms [One (Lit (CHR ''(''))] False p (CHR ''('' # post)"
    by simp
  have m1: "\<And>p. matchAtoms [Star Space, One (Lit (CHR ''(''))] False p (ws @ CHR ''('' # post)"
    unfolding matchAtoms_Star
    using ws m2 by (intro exI [of _ ws] exI [of _ "CHR ''('' # post"]) simp
  have "matchAtoms (lit ''BENCHMARK'' @ [Star Space, One (Lit (CHR ''(''))]) False ?prev
      (k @ ws @ CHR ''('' # post)"
    unfolding matchAtoms_lit
    using k m1 by (intro exI [of _ k] exI [of _ "ws @ CHR ''('' # post"]) simp
  then have "searchFrom (lit ''BENCHMARK'' @ [Star Space, One (Lit (CHR ''(''))]) False None
      (pre @ k @ ws @ CHR ''('' # post)"
    unfolding searchFrom_iff
    by (intro exI [of _ pre] exI [of _ "k @ ws @ CHR ''('' # post"]) simp
  then have "regex_test (Regex False (lit ''BENCHMARK'' @ [Star Space, One (Lit (CHR ''(''))]) False)
      (pre @ k @ ws @ CHR ''('' # post)"
    by (simp add: regex_test_def)
  then show ?thesis
    by (simp add: matchesDisallowedPattern_def DISALLOWED_SQL_PATTERNS_def)
qed

subsection \<open>Deny precedence\<close>

text \<open>
  C3. A query that matches one of the deny patterns, or that references the restricted
  table, is not allowed, whether or not it matches an allow pattern: a query is allowed
  exactly when it matches an allow pattern, no deny pattern, and references no
  restricted table. In terms of the text of the query: it is not allowed when it
  contains, in any letter case, one of \<open>DROP\<close>, \<open>ALTER\<close>, \<open>CREATE\<close>, \<open>TRUNCATE\<close>,
  \<open>EXEC\<close>, \<open>UNION\<close> followed by a white-space character, or \<open>BENCHMARK\<close> followed by
  optional white space and an opening parenthesis, or \<open>FROM\<close> or \<open>JOIN\<close> followed by
  white space and \<open>SecurityAnswers\<close>, the whole standing between word boundaries.
\<close>

theorem isQueryAllowed_deny_precedence:
  "(matchesDisallowedPattern q \<or> referencesRestrictedTable q \<longrightarrow> isQueryAllowed q = False)
   \<and> (isQueryAllowed q \<longleftrightarrow>
        matchesAllowedPattern q \<and> \<not> matchesDisallowedPattern q \<and> \<not> referencesRestrictedTable q)
   \<and> (kw \<in> set [''DROP'', ''ALTER'', ''CREATE'', ''TRUNCATE'', ''EXEC'', ''UNION'']
        \<and> map canonicalize k = map canonicalize kw \<and> isWhiteSpace sp \<longrightarrow>
      isQueryAllowed (pre @ k @ sp # post) = False)
   \<and> (map canonicalize k = map canonicalize ''BENCHMARK'' \<and> (\<forall>x \<in> set ws. isWhiteSpace x) \<longrightarrow>
      isQueryAllowed (pre @ k @ ws @ CHR ''('' # post) = False)
   \<and> (kw \<in> set [''FROM'', ''JOIN''] \<and> map canonicalize k = map canonicalize kw
        \<and> ws \<noteq> [] \<and> (\<forall>x \<in> set ws. isWhiteSpace x)
        \<and> map canonicalize t = map canonicalize ''SecurityAnswers''
        \<and> (pre = [] \<or> \<not> isWordChar (last pre)) \<and> (post = [] \<or> \<not> isWordChar (hd post)) \<longrightarrow>
      isQueryAllowed (pre @ k @ ws @ t @ post) = False)"
proof -
  have deny: "\<And>q. matchesDisallowedPattern q \<or> referencesRestrictedTable q \<Longrightarrow>
      isQueryAllowed q = False"
    by (auto simp add: isQueryAllowed_def Let_def)
  have "isQueryAllowed q \<longleftrightarrow>
        matchesAllowedPattern q \<and> \<not> matchesDisallowedPattern q \<and> \<not> referencesRestrictedTable q"
    by (simp add: isQueryAllowed_def Let_def)
  moreover have "kw \<in> set [''DROP'', ''ALTER'', ''CREATE'', ''TRUNCATE'', ''EXEC'', ''UNION'']
        \<and> map canonicalize k = map canonicalize kw \<and> isWhiteSpace sp \<longrightarrow>
      isQueryAllowed (pre @ k @ sp # post) = False"
    using keyword_denied [of kw k sp pre post] deny by blast
  moreover have "map canonicalize k = map canonicalize ''BENCHMARK''
        \<and> (\<forall>x \<in> set ws. isWhiteSpace x) \<longrightarrow>
      isQueryAllowed (pre @ k @ ws @ CHR ''('' # post) = False"
    using benchmark_denied [of k ws pre post] deny by blast
  moreover have "kw \<in> set [''FROM'', ''JOIN''] \<and> map canonicalize k = map canonicalize kw
        \<and> ws \<noteq> [] \<and> (\<forall>x \<in> set ws. isWhiteSpace x)
        \<and> map canonicalize t = map canonicalize ''SecurityAnswers''
        \<and> (pre = [] \<or> \<not> isWordChar (last pre)) \<and> (post = [] \<or> \<not> isWordChar (hd post)) \<longrightarrow>
      isQueryAllowed (pre @ k @ ws @ t @ post) = False"
    using restricted_table_denied [of kw k ws t pre post] deny by blast
  ultimately show ?thesis
    using deny [of q] by blast
qed

theorem isQueryAllowed_deny_precedence_witness:
  "matchesAllowedPattern ''SELECT * FROM Users UNION SELECT answer FROM SecurityAnswers''
   \<and> matchesDisallowedPattern ''SELECT * FROM Users UNION SELECT answer FROM SecurityAnswers''
   \<and> referencesRestrictedTable ''SELECT * FROM Users UNION SELECT answer FROM SecurityAnswers''
   \<and> isQueryAllowed ''SELECT * FROM Users UNION SELECT answer FROM SecurityAnswers'' = False
   \<and> matchesAllowedPattern ''select answer from securityanswers''
   \<and> \<not> matchesDisallowedPattern ''select answer from securityanswers''
   \<and> isQueryAllowed ''select answer from securityanswers'' = False
   \<and> matchesAllowedPattern ''SELECT name FROM Products union select email FROM Users''
   \<and> isQueryAllowed ''SELECT name FROM Products union select email FROM Users'' = False
   \<and> matchesAllowedPattern ''SELECT benchmark (5, 1) FROM Users''
   \<and> isQueryAllowed ''SELECT benchmark (5, 1) FROM Users'' = False"
proof -
  have a: "matchesAllowedPattern ''SELECT * FROM Users UNION SELECT answer FROM SecurityAnswers''"
    by code_simp
  have d: "matchesDisallowedPattern ''SELECT * FROM Users UNION SELECT answer FROM SecurityAnswers''"
    by code_simp
  have r: "referencesRestrictedTable ''SELECT * FROM Users UNION SELECT answer FROM SecurityAnswers''"
    by code_simp
  have a': "matchesAllowedPattern ''select answer from securityanswers''"
    by code_simp
  have d': "\<not> matchesDisallowedPattern ''select answer from securityanswers''"
    by code_simp
  have a2: "matchesAllowedPattern ''SELECT name FROM Products union select email FROM Users''"
    by code_simp
  have a3: "matchesAllowedPattern ''SELECT benchmark (5, 1) FROM Users''"
    by code_simp
  have c1: "map canonicalize ''union'' = map canonicalize ''UNION''"
    by code_simp
  have c2: "map canonicalize ''benchmark'' = map canonicalize ''BENCHMARK''"
    by code_simp
  have c3: "map canonicalize ''from'' = map canonicalize ''FROM''"
    by code_simp
  have c4: "map canonicalize ''securityanswers'' = map canonicalize ''SecurityAnswers''"
    by code_simp
  have s1: "isWhiteSpace (CHR '' '')"
    by code_simp
  have s2: "\<not> isWordChar (CHR '' '')"
    by code_simp
  note by_pattern = isQueryAllowed_deny_precedence
    [where q = "''SELECT * FROM Users UNION SELECT answer FROM SecurityAnswers''"
       and kw = "''UNION''" and k = "''union''" and sp = "CHR '' ''"
       and pre = "''SELECT name FROM Products ''" and post = "''select email FROM Users''"
       and ws = "[]" and t = "[]"]
  note by_table = isQueryAllowed_deny_precedence
    [where q = "''select answer from securityanswers''"
       and kw = "''FROM''" and k = "''from''" and sp = "CHR '' ''"
       and pre = "''select answer ''" and post = "[]"
       and ws = "'' ''" and t = "''securityanswers''"]
  note by_benchmark = isQueryAllowed_deny_precedence
    [where q = "''SELECT benchmark (5, 1) FROM Users''"
       and kw = "''UNION''" and k = "''benchmark''" and sp = "CHR '' ''"
       and pre = "''SELECT ''" and post = "''5, 1) FROM Users''"
       and ws = "'' ''" and t = "[]"]
  from by_pattern d c1 s1
  have "isQueryAllowed ''SELECT * FROM Users UNION SELECT answer FROM SecurityAnswers'' = False
      \<and> isQueryAllowed ''SELECT name FROM Products union select email FROM Users'' = False"
    by simp
  moreover from by_table [THEN conjunct2, THEN conjunct2, THEN conjunct2, THEN conjunct2]
    c3 c4 s1 s2
  have "isQueryAllowed ''select answer from securityanswers'' = False"
    by simp
  moreover from by_benchmark [THEN conjunct2, THEN conjunct2, THEN conjunct2, THEN conjunct1]
    c2 s1
  have "isQueryAllowed ''SELECT benchmark (5, 1) FROM Users'' = False"
    by simp
  ultimately show ?thesis using a d r a' d' a2 a3 by blast
qed

section \<open>Properties of the SQL tool\<close>











section \<open>Properties of the basket actions\<close>

lemma hd_sort_key_min:
  assumes "xs \<noteq> []" and "x \<in> set xs"
  shows "f (hd (sort_key f xs)) \<le> f x"
proof -
  let ?ys = "sort_key f xs"
  have ne: "?ys \<noteq> []" using assms(1) by (metis length_sort length_0_conv)
  then obtain y ys where ys: "?ys = y # ys" by (cases ?ys) auto
  have "sorted (map f ?ys)" by (rule sorted_sort_key)
  with ys have "\<forall>z \<in> set ys. f y \<le> f z" by simp
  moreover have "x \<in> set ?ys" using assms(2) by simp
  ultimately show ?thesis using ys by auto
qed

lemma hd_sort_key_mem: "xs \<noteq> [] \<Longrightarrow> hd (sort_key f xs) \<in> set xs"
  by (metis hd_in_set length_0_conv length_sort set_sort)

lemma resolve_best:
  assumes s: "productService_search svc (Some search) w = (Inr (Some products), w')"
    and ne: "products \<noteq> []"
  shows "\<exists>best. resolveProductFromName svc (Some search) w = (Some best, w')
    \<and> (\<exists>p \<in> set products. resolved_id best = product_id p \<and> resolved_name best = product_name p
          \<and> matches best = calculateNameMatchScore search (product_name p))
    \<and> (\<forall>p \<in> set products. calculateNameMatchScore search (product_name p) \<le> matches best)"
proof -
  let ?score = "\<lambda>product.
     \<lparr>resolved_id = product_id product, resolved_name = product_name product,
      resolved_price = product_price product,
      matches = calculateNameMatchScore search (product_name product)\<rparr>"
  let ?scored = "map ?score products"
  let ?best = "hd (sort_key (\<lambda>scored. - matches scored) ?scored)"
  have r: "resolveProductFromName svc (Some search) w = (Some ?best, w')"
    using s ne by (simp add: resolveProductFromName_def)
  have sne: "?scored \<noteq> []" using ne by simp
  have "?best \<in> set ?scored" by (rule hd_sort_key_mem [OF sne])
  then obtain p where p: "p \<in> set products" "?best = ?score p" by auto
  have mx: "\<forall>q \<in> set products. calculateNameMatchScore search (product_name q) \<le> matches ?best"
  proof
    fix q assume "q \<in> set products"
    then have "?score q \<in> set ?scored" by simp
    from hd_sort_key_min [OF sne this, of "\<lambda>scored. - matches scored"]
    show "calculateNameMatchScore search (product_name q) \<le> matches ?best" by simp
  qed
  from p have "resolved_id ?best = product_id p \<and> resolved_name ?best = product_name p
          \<and> matches ?best = calculateNameMatchScore search (product_name p)"
    by simp
  with r p(1) mx show ?thesis by blast
qed

lemma resolve_ignores_save:
  "resolveProductFromName (svc\<lparr>basketService_save := otherSave\<rparr>) n w =
   resolveProductFromName svc n w"
  by (simp add: resolveProductFromName_def)

lemma add_below_threshold:
  assumes add: "action params = ''add''"
    and res: "resolveProductFromName svc (productName params) w = (Some best, w')"
    and low: "matches best < MATCH_THRESHOLD"
  shows "requiresConfirmation (fst (handleBasketAction svc params w)) = Some True"
    and "success (fst (handleBasketAction svc params w)) = None"
    and "responseAction (fst (handleBasketAction svc params w)) =
           Some (add_to_basket (resolved_id best) (quantityOrOne params) True)"
    and "snd (handleBasketAction svc params w) = w'"
    and "handleBasketAction (svc\<lparr>basketService_save := otherSave\<rparr>) params w =
           handleBasketAction svc params w"
  using add res low
  by (simp_all add: handleBasketAction_def resolve_ignores_save plainResponse_def)

lemma add_success_needs_threshold:
  assumes add: "action params = ''add''"
    and ok: "success (fst (handleBasketAction svc params w)) = Some True"
  shows "\<exists>best w'. resolveProductFromName svc (productName params) w = (Some best, w')
           \<and> MATCH_THRESHOLD \<le> matches best"
proof (cases "resolveProductFromName svc (productName params) w")
  case (Pair found w')
  show ?thesis
  proof (cases found)
    case None
    with Pair add ok show ?thesis
      by (simp add: handleBasketAction_def plainResponse_def)
  next
    case (Some best)
    have "\<not> matches best < MATCH_THRESHOLD"
    proof
      assume "matches best < MATCH_THRESHOLD"
      with Some Pair add ok show False
        by (simp add: handleBasketAction_def plainResponse_def)
    qed
    with Some Pair show ?thesis by simp
  qed
qed

lemma add_write_needs_threshold:
  assumes add: "action params = ''add''"
    and ch: "snd (handleBasketAction svc params w) \<noteq>
             snd (resolveProductFromName svc (productName params) w)"
  shows "\<exists>best w'. resolveProductFromName svc (productName params) w = (Some best, w')
           \<and> MATCH_THRESHOLD \<le> matches best"
proof (cases "resolveProductFromName svc (productName params) w")
  case (Pair found w')
  show ?thesis
  proof (cases found)
    case None
    with Pair add ch show ?thesis
      by (simp add: handleBasketAction_def)
  next
    case (Some best)
    have "\<not> matches best < MATCH_THRESHOLD"
    proof
      assume "matches best < MATCH_THRESHOLD"
      with Some Pair add ch show False
        by (simp add: handleBasketAction_def)
    qed
    with Some Pair show ?thesis by simp
  qed
qed

text \<open>
  C6. The product an add request resolves to is a search hit with the highest match
  score. When that score is below the threshold 0.8, the response has
  \<open>requiresConfirmation = true\<close> and proposes the add as an action that needs
  confirmation, the world is as the catalog search left it, and the outcome does not
  depend on the basket write at all. A response that reports success, or a world that
  differs from the one the search left, occurs only when a product was resolved with a
  score of at least 0.8.
\<close>

theorem basket_add_confirmation_threshold:
  "(productService_search svc (Some search) w = (Inr (Some products), w') \<and> products \<noteq> [] \<longrightarrow>
      (\<exists>best. resolveProductFromName svc (Some search) w = (Some best, w')
         \<and> (\<exists>p \<in> set products. resolved_id best = product_id p
               \<and> matches best = calculateNameMatchScore search (product_name p))
         \<and> (\<forall>p \<in> set products. calculateNameMatchScore search (product_name p) \<le> matches best)))
   \<and> (action params = ''add''
        \<and> resolveProductFromName svc (productName params) w = (Some best, w')
        \<and> matches best < MATCH_THRESHOLD \<longrightarrow>
      requiresConfirmation (fst (handleBasketAction svc params w)) = Some True
      \<and> success (fst (handleBasketAction svc params w)) = None
      \<and> responseAction (fst (handleBasketAction svc params w)) =
          Some (add_to_basket (resolved_id best) (quantityOrOne params) True)
      \<and> snd (handleBasketAction svc params w) = w'
      \<and> handleBasketAction (svc\<lparr>basketService_save := otherSave\<rparr>) params w =
          handleBasketAction svc params w)
   \<and> (action params = ''add''
        \<and> (success (fst (handleBasketAction svc params w)) = Some True
            \<or> snd (handleBasketAction svc params w) \<noteq>
               snd (resolveProductFromName svc (productName params) w)) \<longrightarrow>
      (\<exists>best w'. resolveProductFromName svc (productName params) w = (Some best, w')
         \<and> MATCH_THRESHOLD \<le> matches best))"
proof (intro conjI impI)
  assume "productService_search svc (Some search) w = (Inr (Some products), w') \<and> products \<noteq> []"
  then have s: "productService_search svc (Some search) w = (Inr (Some products), w')"
    and ne: "products \<noteq> []" by simp_all
  from resolve_best [OF s ne]
  show "\<exists>best. resolveProductFromName svc (Some search) w = (Some best, w')
         \<and> (\<exists>p \<in> set products. resolved_id best = product_id p
               \<and> matches best = calculateNameMatchScore search (product_name p))
         \<and> (\<forall>p \<in> set products. calculateNameMatchScore search (product_name p) \<le> matches best)"
    by blast
next
  assume a: "action params = ''add''
        \<and> resolveProductFromName svc (productName params) w = (Some best, w')
        \<and> matches best < MATCH_THRESHOLD"
  then have add: "action params = ''add''"
    and res: "resolveProductFromName svc (productName params) w = (Some best, w')"
    and low: "matches best < MATCH_THRESHOLD" by simp_all
  note facts = add_below_threshold [OF add res low]
  show "requiresConfirmation (fst (handleBasketAction svc params w)) = Some True" by (rule facts)
  show "success (fst (handleBasketAction svc params w)) = None" by (rule facts)
  show "responseAction (fst (handleBasketAction svc params w)) =
          Some (add_to_basket (resolved_id best) (quantityOrOne params) True)" by (rule facts)
  show "snd (handleBasketAction svc params w) = w'" by (rule facts)
  show "handleBasketAction (svc\<lparr>basketService_save := otherSave\<rparr>) params w =
          handleBasketAction svc params w" by (rule facts)
next
  assume a: "action params = ''add''
        \<and> (success (fst (handleBasketAction svc params w)) = Some True
            \<or> snd (handleBasketAction svc params w) \<noteq>
               snd (resolveProductFromName svc (productName params) w))"
  then show "\<exists>best w'. resolveProductFromName svc (productName params) w = (Some best, w')
         \<and> MATCH_THRESHOLD \<le> matches best"
    using add_success_needs_threshold [of params svc w] add_write_needs_threshold [of params svc w]
    by blast
qed

theorem basket_add_confirmation_threshold_witness:
  "requiresConfirmation (fst (handleBasketAction juiceShop
      \<lparr>action = ''add'', productName = Some ''apple pie'', quantity = None\<rparr> [])) = Some True
   \<and> snd (handleBasketAction juiceShop
      \<lparr>action = ''add'', productName = Some ''apple pie'', quantity = None\<rparr> []) = []
   \<and> fst (resolveProductFromName juiceShop (Some ''apple pie'') []) =
       Some \<lparr>resolved_id = 1, resolved_name = ''Apple Juice'', resolved_price = 199 / 100,
             matches = 1 / 2\<rparr>
   \<and> calculateNameMatchScore ''apple pie'' ''Orange Juice'' \<le> 1 / 2
   \<and> success (fst (handleBasketAction juiceShop
      \<lparr>action = ''add'', productName = Some ''apple juice'', quantity = None\<rparr> [])) = Some True
   \<and> snd (handleBasketAction juiceShop
      \<lparr>action = ''add'', productName = Some ''apple juice'', quantity = None\<rparr> []) = [(1, ''5'', 1)]
   \<and> (\<exists>best w'. resolveProductFromName juiceShop (Some ''apple juice'') [] = (Some best, w')
         \<and> MATCH_THRESHOLD \<le> matches best)"
proof -
  let ?pie = "\<lparr>action = ''add'', productName = Some ''apple pie'', quantity = None\<rparr>"
  let ?juice = "\<lparr>action = ''add'', productName = Some ''apple juice'', quantity = None\<rparr>"
  let ?best = "\<lparr>resolved_id = 1, resolved_name = ''Apple Juice'', resolved_price = 199 / 100,
             matches = 1 / 2\<rparr>"
  let ?catalog = "[\<lparr>product_id = 1, product_name = ''Apple Juice'', product_price = 199 / 100\<rparr>,
                   \<lparr>product_id = 2, product_name = ''Orange Juice'', product_price = 299 / 100\<rparr>]"
  have found: "productService_search juiceShop (Some ''apple pie'') [] = (Inr (Some ?catalog), [])"
    by (simp add: juiceShop_def)
  have r1: "resolveProductFromName juiceShop (Some ''apple pie'') [] = (Some ?best, [])"
    by code_simp
  have low: "matches ?best < MATCH_THRESHOLD"
    by (simp add: MATCH_THRESHOLD_def)
  have ok: "success (fst (handleBasketAction juiceShop ?juice [])) = Some True"
    by code_simp
  have wr: "snd (handleBasketAction juiceShop ?juice []) = [(1, ''5'', 1)]"
    by code_simp
  note below = basket_add_confirmation_threshold
    [where svc = juiceShop and search = "''apple pie''" and w = "[]" and products = ?catalog
       and w' = "[]" and params = ?pie and best = ?best]
  note above = basket_add_confirmation_threshold
    [where svc = juiceShop and search = "''apple juice''" and w = "[]" and products = "[]"
       and w' = "[]" and params = ?juice and best = ?best]
  from below found r1 have "calculateNameMatchScore ''apple pie'' ''Orange Juice'' \<le> 1 / 2"
    by simp
  moreover from below r1 low
  have "requiresConfirmation (fst (handleBasketAction juiceShop ?pie [])) = Some True
      \<and> snd (handleBasketAction juiceShop ?pie []) = []"
    by simp
  moreover from above ok
  have "\<exists>best w'. resolveProductFromName juiceShop (Some ''apple juice'') [] = (Some best, w')
         \<and> MATCH_THRESHOLD \<le> matches best"
    by simp
  ultimately show ?thesis using r1 ok wr by simp
qed

section \<open>Properties of the routes\<close>

text \<open>
  C8 does not hold of the code. For an authenticated request whose query is missing or
  empty, \<open>respond\<close> answers with status 200 and the greeting; it is the handler
  \<open>process\<close> that answers such a request with status 400 and
  \<open>No query provided\<close>.
\<close>

theorem respond_without_query_greets:
  "(token req = Some jwt \<and> getUserFromJwt env jwt w = Some user \<and> \<not> truthy (body_query req) \<longrightarrow>
      respond env req w =
        (Json 200 (JObj [(''action'', JStr ''response''),
                         (''body'', JStr (chatbot_getGreeting env (username user)))]), w))
   \<and> (\<not> truthy (body_query req) \<longrightarrow>
      process env req w = (Json 400 (JObj [(''error'', JStr ''No query provided'')]), w))"
  by (simp add: respond_def process_def)

theorem respond_without_query_greets_witness:
  "respond jimsServer \<lparr>token = Some ''token-of-jim'', body_userId = JUndefined, body_query = JStr []\<rparr> ()
     = (Json 200 (JObj [(''action'', JStr ''response''), (''body'', JStr ''Nice to meet you, jim'')]), ())
   \<and> respond jimsServer \<lparr>token = Some ''token-of-jim'', body_userId = JUndefined, body_query = JUndefined\<rparr> ()
     = (Json 200 (JObj [(''action'', JStr ''response''), (''body'', JStr ''Nice to meet you, jim'')]), ())
   \<and> process jimsServer \<lparr>token = None, body_userId = JUndefined, body_query = JStr []\<rparr> ()
     = (Json 400 (JObj [(''error'', JStr ''No query provided'')]), ())"
  using respond_without_query_greets
      [of "\<lparr>token = Some ''token-of-jim'', body_userId = JUndefined, body_query = JStr []\<rparr>"
          "''token-of-jim''" jimsServer "()" "\<lparr>user_id = 2, username = ''jim''\<rparr>"]
    respond_without_query_greets
      [of "\<lparr>token = Some ''token-of-jim'', body_userId = JUndefined, body_query = JUndefined\<rparr>"
          "''token-of-jim''" jimsServer "()" "\<lparr>user_id = 2, username = ''jim''\<rparr>"]
    respond_without_query_greets
      [of "\<lparr>token = None, body_userId = JUndefined, body_query = JStr []\<rparr>"
          "''token-of-jim''" jimsServer "()" "\<lparr>user_id = 2, username = ''jim''\<rparr>"]
  by (simp add: jimsServer_def)

section \<open>Properties of the tool dispatcher\<close>

lemma unknown_name_cases:
  "functionName \<notin> set toolCatalog \<Longrightarrow>
     functionName \<noteq> ''get_product_information'' \<and> functionName \<noteq> ''get_user_information''
     \<and> functionName \<noteq> ''add_to_basket'' \<and> functionName \<noteq> ''get_basket''
     \<and> functionName \<noteq> ''remove_from_basket'' \<and> functionName \<noteq> ''generate_coupon''
     \<and> functionName \<noteq> ''execute_sql_query'' \<and> functionName \<noteq> ''execute_linux_command''"
  by (auto simp add: toolCatalog_def botTools_def)

lemma executeToolFunction_unknown:
  assumes "functionName \<notin> set toolCatalog"
  shows "executeToolFunction run functionName parameters w =
     (JObj [(''error'', JStr (''Error executing function '' @ functionName
               @ '': Unknown function: '' @ functionName))], w)"
  using unknown_name_cases [OF assms] by (simp add: executeToolFunction_def)

lemma action_chatResponse: "field (chatResponse b) ''action'' = JStr ''response''"
  by (simp add: chatResponse_def)

lemma action_chatResponseWithData: "field (chatResponseWithData b d) ''action'' = JStr ''response''"
  by (simp add: chatResponseWithData_def)

lemma action_errorInChatbot: "field errorInChatbot ''action'' = JStr ''response''"
  by (simp add: errorInChatbot_def chatResponse_def)

lemma getConversationHistory_ignores_tools:
  "getConversationHistory (env\<lparr>runTool := other\<rparr>) hs userId =
   getConversationHistory env hs userId"
  by (simp add: getConversationHistory_def split: option.splits)

lemma getConversationHistory_after_add:
  assumes "addToConversationHistory p hs u m = Inr hs'"
  shows "getConversationHistory env hs' u = (Log (historyAfter hs' u), hs')"
  by (simp add: getConversationHistory_def propertyRead_def stored_after_add [OF assms])

lemma followUpMessages_ignores_tools:
  "followUpMessages (env\<lparr>runTool := other\<rparr>) userId functionName functionResult hs =
   followUpMessages env userId functionName functionResult hs"
  by (simp add: followUpMessages_def getConversationHistory_ignores_tools Let_def
      split: sum.splits)

lemma interpretResult_world:
  "snd (snd (interpretResult env userId functionName functionResult (hs, w))) = w
   \<or> (\<exists>messages. snd (snd (interpretResult env userId functionName functionResult (hs, w)))
         = snd (axios_post env messages False w))"
proof (cases "followUpMessages env userId functionName functionResult hs")
  case (Pair found hs2)
  show ?thesis
  proof (cases found)
    case None
    with Pair show ?thesis by (simp add: interpretResult_def)
  next
    case (Some messages)
    show ?thesis
    proof (cases "axios_post env messages False w")
      case post: (Pair reply w')
      have "snd (snd (interpretResult env userId functionName functionResult (hs, w))) = w'"
        by (cases reply) (simp_all add: interpretResult_def Pair Some post split: sum.splits)
      with post show ?thesis by (metis snd_conv)
    qed
  qed
qed

lemma interpretResult_ignores_tools:
  "interpretResult (env\<lparr>runTool := other\<rparr>) userId functionName functionResult st =
   interpretResult env userId functionName functionResult st"
  by (cases st)
     (simp add: interpretResult_def followUpMessages_ignores_tools
        split: prod.splits option.splits llmReply.splits sum.splits)

lemma afterToolCall_unknown:
  assumes u: "functionName \<notin> set toolCatalog"
    and e: "field functionResult ''error'' = JStr msg"
  shows "afterToolCall env userId functionName functionResult st =
     (if msg \<noteq> [] \<and> includesStr msg ''User not found''
      then (chatResponse
                   (JStr (''I couldn't access your user information. This might be due to a ''
                          @ ''session issue. Please try logging out and back in, or contact ''
                          @ ''customer support if the problem persists.'')), st)
      else interpretResult env userId functionName functionResult st)"
  using unknown_name_cases [OF u] e
  by (simp add: afterToolCall_def userNotFound_def)


lemma verifyBasket_action:
  "field (fst (verifyBasket env userId change functionResult st)) ''action'' = JStr ''response''"
  by (cases st)
     (simp add: verifyBasket_def action_chatResponseWithData split: prod.splits)

lemma interpretResult_action:
  "field (fst (interpretResult env userId functionName functionResult st)) ''action'' = JStr ''response''"
  by (cases st)
     (simp add: interpretResult_def Let_def action_chatResponseWithData action_chatResponse
        action_errorInChatbot split: prod.splits option.splits llmReply.splits sum.splits)

lemma afterToolCall_action:
  "field (fst (afterToolCall env userId functionName functionResult st)) ''action'' = JStr ''response''"
  by (simp add: afterToolCall_def action_chatResponseWithData action_chatResponse
        action_errorInChatbot verifyBasket_action interpretResult_action
        split: option.splits bool.splits)

lemma processToolCall_action:
  "field (fst (processToolCall env userId functionName argumentsText st)) ''action'' = JStr ''response''"
  by (cases st)
     (simp add: processToolCall_def Let_def action_chatResponse afterToolCall_action
        split: prod.splits option.splits)

lemma askModel_action:
  "field (fst (askModel env userId query u st)) ''action'' = JStr ''response''"
  by (cases st)
     (simp add: askModel_def Let_def action_chatResponse action_errorInChatbot
        processToolCall_action
        split: prod.splits storedValue.splits sum.splits llmReply.splits list.splits)

lemma processChat_action:
  "field (fst (processChat env userId query u st)) ''action'' = JStr ''response''"
  by (cases st)
     (simp add: processChat_def Let_def action_chatResponse action_chatResponseWithData
        askModel_action split: prod.splits jsval.splits sum.splits)

lemma processToolCall_unknown:
  assumes u: "functionName \<notin> set toolCatalog"
  shows "processToolCall env userId functionName argumentsText (hs, w) =
     (case JSON_parse env argumentsText of
        None \<Rightarrow>
          (chatResponse (JStr (''I encountered an error while processing your request. ''
                               @ ''Please try a different query.'')), (hs, w))
      | Some parsed \<Rightarrow>
          afterToolCall env userId functionName
            (JObj [(''error'', JStr (''Error executing function '' @ functionName
               @ '': Unknown function: '' @ functionName))]) (hs, w))"
  using unknown_name_cases [OF u]
  by (simp add: processToolCall_def executeToolFunction_unknown [OF u] split: option.splits)

lemma unknown_turn_world:
  assumes u: "functionName \<notin> set toolCatalog"
  shows "snd (snd (processToolCall env userId functionName argumentsText (hs, w))) = w
     \<or> (\<exists>messages. snd (snd (processToolCall env userId functionName argumentsText (hs, w)))
           = snd (axios_post env messages False w))"
proof (cases "JSON_parse env argumentsText")
  case None
  then show ?thesis by (simp add: processToolCall_unknown [OF u])
next
  case (Some parsed)
  let ?r = "JObj [(''error'', JStr (''Error executing function '' @ functionName
               @ '': Unknown function: '' @ functionName))]"
  have e: "field ?r ''error'' = JStr (''Error executing function '' @ functionName
               @ '': Unknown function: '' @ functionName)" by simp
  have p: "processToolCall env userId functionName argumentsText (hs, w) =
      afterToolCall env userId functionName ?r (hs, w)"
    by (simp add: processToolCall_unknown [OF u] Some)
  show ?thesis
    unfolding p afterToolCall_unknown [OF u e]
    using interpretResult_world [of env userId functionName ?r hs w]
    by (cases "includesStr (''Error executing function '' @ functionName
               @ '': Unknown function: '' @ functionName) ''User not found''") simp_all
qed

lemma unknown_turn_ignores_tools:
  assumes u: "functionName \<notin> set toolCatalog"
  shows "processToolCall (env\<lparr>runTool := other\<rparr>) userId functionName argumentsText (hs, w) =
         processToolCall env userId functionName argumentsText (hs, w)"
proof -
  let ?r = "JObj [(''error'', JStr (''Error executing function '' @ functionName
               @ '': Unknown function: '' @ functionName))]"
  have e: "field ?r ''error'' = JStr (''Error executing function '' @ functionName
               @ '': Unknown function: '' @ functionName)" by simp
  show ?thesis
    unfolding processToolCall_unknown [OF u] afterToolCall_unknown [OF u e]
    by (simp add: interpretResult_ignores_tools split: option.splits)
qed

lemma field_assign:
  "field (assign (JObj kvs) k v) k' = (if k' = k then v else field (JObj kvs) k')"
proof -
  have upd: "map_of (map (\<lambda>(a, b). if a = k then (a, v) else (a, b)) kvs) k' =
      (if k' = k then (case map_of kvs k of None \<Rightarrow> None | Some old \<Rightarrow> Some v) else map_of kvs k')"
    by (induction kvs) (auto split: option.splits)
  show ?thesis
    by (cases "map_of kvs k") (simp_all add: upd map_add_def split: option.splits)
qed

lemma executeToolFunction_reads_fields:
  assumes "\<And>k. field p k = field p' k"
  shows "executeToolFunction run functionName p w = executeToolFunction run functionName p' w"
  by (simp add: executeToolFunction_def assms)

text \<open>
  For the three tools that \<open>processChat\<close> lists, the turn is the same whatever user id
  the model put into the arguments.
\<close>

lemma listed_tools_ignore_proposed_userId:
  assumes listed: "functionName \<in> set [''get_user_information'', ''add_to_basket'', ''get_basket'']"
    and p: "JSON_parse env argumentsText = Some parsed"
    and p': "JSON_parse env argumentsText' = Some parsed'"
    and same: "\<And>k. k \<noteq> ''userId'' \<Longrightarrow> map_of parsed k = map_of parsed' k"
  shows "processToolCall env userId functionName argumentsText st =
         processToolCall env userId functionName argumentsText' st"
proof -
  have "\<And>k. field (assign (JObj parsed) ''userId'' (JStr userId)) k =
             field (assign (JObj parsed') ''userId'' (JStr userId)) k"
    using same by (simp add: field_assign del: assign.simps)
  then have "\<And>w. executeToolFunction (runTool env) functionName
                 (assign (JObj parsed) ''userId'' (JStr userId)) w =
             executeToolFunction (runTool env) functionName
                 (assign (JObj parsed') ''userId'' (JStr userId)) w"
    by (rule executeToolFunction_reads_fields)
  with listed p p' show ?thesis
    by (cases st) (simp add: processToolCall_def Let_def del: assign.simps)
qed

text \<open>
  C9. For a tool name outside the catalog the dispatcher returns the object
  \<open>{error: "Error executing function N: Unknown function: N"}\<close> and leaves the world as
  it was. The tool-call branch of the turn then returns a response, is the same
  whatever the tool functions are (none of them runs), and changes the world by at
  most the one follow-up request to the model, which offers no tools.
\<close>

theorem unknown_tool_fails_closed:
  "functionName \<notin> set toolCatalog \<longrightarrow>
     executeToolFunction run functionName parameters w =
       (JObj [(''error'', JStr (''Error executing function '' @ functionName
                 @ '': Unknown function: '' @ functionName))], w)
     \<and> truthy (field (fst (executeToolFunction run functionName parameters w)) ''error'')
     \<and> field (fst (processToolCall env userId functionName argumentsText (hs, w))) ''action''
         = JStr ''response''
     \<and> processToolCall (env\<lparr>runTool := other\<rparr>) userId functionName argumentsText (hs, w)
         = processToolCall env userId functionName argumentsText (hs, w)
     \<and> (snd (snd (processToolCall env userId functionName argumentsText (hs, w))) = w
         \<or> (\<exists>messages. snd (snd (processToolCall env userId functionName argumentsText (hs, w)))
               = snd (axios_post env messages False w)))"
proof
  assume u: "functionName \<notin> set toolCatalog"
  have "truthy (field (fst (executeToolFunction run functionName parameters w)) ''error'')"
    by (simp add: executeToolFunction_unknown [OF u])
  with executeToolFunction_unknown [OF u, where run = run and parameters = parameters and w = w]
    processToolCall_action [where env = env and userId = userId and functionName = functionName
      and argumentsText = argumentsText and st = "(hs, w)"]
    unknown_turn_ignores_tools [OF u, where env = env and other = other and userId = userId
      and argumentsText = argumentsText and hs = hs and w = w]
    unknown_turn_world [OF u, where env = env and userId = userId
      and argumentsText = argumentsText and hs = hs and w = w]
  show "executeToolFunction run functionName parameters w =
       (JObj [(''error'', JStr (''Error executing function '' @ functionName
                 @ '': Unknown function: '' @ functionName))], w)
     \<and> truthy (field (fst (executeToolFunction run functionName parameters w)) ''error'')
     \<and> field (fst (processToolCall env userId functionName argumentsText (hs, w))) ''action''
         = JStr ''response''
     \<and> processToolCall (env\<lparr>runTool := other\<rparr>) userId functionName argumentsText (hs, w)
         = processToolCall env userId functionName argumentsText (hs, w)
     \<and> (snd (snd (processToolCall env userId functionName argumentsText (hs, w))) = w
         \<or> (\<exists>messages. snd (snd (processToolCall env userId functionName argumentsText (hs, w)))
               = snd (axios_post env messages False w)))"
    by blast
qed

theorem unknown_tool_fails_closed_witness:
  "''delete_all_users'' \<notin> set toolCatalog
   \<and> executeToolFunction recordingTools ''delete_all_users'' (JObj []) [] =
       (JObj [(''error'', JStr ''Error executing function delete_all_users: Unknown function: delete_all_users'')], [])
   \<and> fst (processToolCall recordingChat ''1'' ''delete_all_users'' ''{}'' (Map.empty, [])) =
       chatResponseWithData (JStr ''Done.'')
         (JObj [(''error'', JStr ''Error executing function delete_all_users: Unknown function: delete_all_users'')])
   \<and> snd (snd (processToolCall recordingChat ''1'' ''delete_all_users'' ''{}'' (Map.empty, []))) = []"
proof -
  have u: "''delete_all_users'' \<notin> set toolCatalog"
    by code_simp
  have r: "fst (processToolCall recordingChat ''1'' ''delete_all_users'' ''{}'' (Map.empty, [])) =
       chatResponseWithData (JStr ''Done.'')
         (JObj [(''error'', JStr ''Error executing function delete_all_users: Unknown function: delete_all_users'')])"
    by code_simp
  have n: "snd (snd (processToolCall recordingChat ''1'' ''delete_all_users'' ''{}'' (Map.empty, []))) = []"
    by code_simp
  from unknown_tool_fails_closed
    [where functionName = "''delete_all_users''" and run = recordingTools
       and parameters = "JObj []" and w = "[]" and env = recordingChat and userId = "''1''"
       and argumentsText = "''{}''" and hs = Map.empty and other = recordingTools] u
  have "executeToolFunction recordingTools ''delete_all_users'' (JObj []) [] =
       (JObj [(''error'', JStr ''Error executing function delete_all_users: Unknown function: delete_all_users'')], [])"
    by simp
  with u r n show ?thesis by simp
qed

text \<open>
  C2 does not hold of the code for \<open>remove_from_basket\<close>: the tool is not among the
  three for which \<open>processChat\<close> sets \<open>parameters.userId\<close>. In the session of user 1, a
  tool call that names user 2 removes from the basket of user 2 (and then reads the
  basket of user 1), whereas the same arguments to \<open>add_to_basket\<close> act on user 1.
\<close>

theorem remove_from_basket_keeps_proposed_userId:
  "snd (snd (processToolCall recordingChat ''1'' ''remove_from_basket''
               ''{\"userId\":\"2\",\"productId\":1}'' (Map.empty, [])))
     = [RemoveFromBasket (JStr ''2'') (JNum 1) JUndefined, GetBasket (JStr ''1'')]
   \<and> snd (snd (processToolCall recordingChat ''1'' ''add_to_basket''
               ''{\"userId\":\"2\",\"productId\":1,\"quantity\":1}'' (Map.empty, [])))
     = [AddToBasket (JStr ''1'') (JNum 1) (JNum 1), GetBasket (JStr ''1'')]"
  by code_simp

text \<open>
  C1 does not hold of the code: the dispatcher hands the command of an
  \<open>execute_linux_command\<close> call to \<open>executeLinuxCommand\<close>, which passes it to the shell
  with a timeout of 30 seconds and consults nothing before. Every command reaches the
  shell, \<open>shutdown -h now\<close> among them, and the result carries no \<open>error\<close>.
\<close>

theorem command_tool_runs_every_command:
  "executeToolFunction (chatbotTools b) ''execute_linux_command''
       (JObj [(''command'', JStr command), (''userId'', userId)]) w
     = executeLinuxCommand (execAsync b) command userId w
   \<and> executeLinuxCommand shell command userId w =
       (case shell command 30000 w of
          (Inr (out, err), w') \<Rightarrow>
            (JObj [(''stdout'', JStr out), (''stderr'', JStr err),
                   (''explanation'', JStr (''Command executed successfully: '' @ command)),
                   (''message'', JStr ''Command execution completed successfully'')], w')
        | (Inl failure, w') \<Rightarrow>
            (JObj [(''error'', JStr (''Failed to execute Linux command: '' @ failure)),
                   (''explanation'', JStr (''Command execution failed: '' @ command))], w'))
   \<and> snd (executeLinuxCommand recordingShell command userId executed) = executed @ [command]
   \<and> executeToolFunction (chatbotTools recordingHost) ''execute_linux_command''
       (JObj [(''command'', JStr ''shutdown -h now''), (''userId'', JStr ''1'')]) []
     = (JObj [(''stdout'', JStr []), (''stderr'', JStr []),
              (''explanation'', JStr ''Command executed successfully: shutdown -h now''),
              (''message'', JStr ''Command execution completed successfully'')],
        [''shutdown -h now''])"
proof -
  have "executeToolFunction (chatbotTools recordingHost) ''execute_linux_command''
       (JObj [(''command'', JStr ''shutdown -h now''), (''userId'', JStr ''1'')]) []
     = (JObj [(''stdout'', JStr []), (''stderr'', JStr []),
              (''explanation'', JStr ''Command executed successfully: shutdown -h now''),
              (''message'', JStr ''Command execution completed successfully'')],
        [''shutdown -h now''])"
    by code_simp
  moreover have "executeToolFunction (chatbotTools b) ''execute_linux_command''
       (JObj [(''command'', JStr command), (''userId'', userId)]) w
     = executeLinuxCommand (execAsync b) command userId w"
    by (simp add: executeToolFunction_def)
  moreover have "snd (executeLinuxCommand recordingShell command userId executed) = executed @ [command]"
    by (simp add: executeLinuxCommand_def recordingShell_def)
  moreover have "executeLinuxCommand shell command userId w =
       (case shell command 30000 w of
          (Inr (out, err), w') \<Rightarrow>
            (JObj [(''stdout'', JStr out), (''stderr'', JStr err),
                   (''explanation'', JStr (''Command executed successfully: '' @ command)),
                   (''message'', JStr ''Command execution completed successfully'')], w')
        | (Inl failure, w') \<Rightarrow>
            (JObj [(''error'', JStr (''Failed to execute Linux command: '' @ failure)),
                   (''explanation'', JStr (''Command execution failed: '' @ command))], w'))"
    by (simp add: executeLinuxCommand_def)
  ultimately show ?thesis by blast
qed

end
